theory Spec2Isabelle
  imports Main "HOL-Library.Word"
begin

section \<open>Device ports (device\_port.h, device\_port.cpp)\<close>

text \<open>
  \<^verbatim>\<open>size_t\<close> is an unsigned 64-bit integer: addition and subtraction wrap around,
  comparison is unsigned.
\<close>

type_synonym size_t = "64 word"

text \<open>\<^verbatim>\<open>std::numeric_limits<size_t>::max()\<close> and \<^verbatim>\<open>std::numeric_limits<size_t>::min()\<close>.\<close>

definition size_t_max :: size_t where
  "size_t_max = - 1"

definition size_t_min :: size_t where
  "size_t_min = 0"

text \<open>The private data of class \<^verbatim>\<open>BasicPort\<close>: \<^verbatim>\<open>msb_\<close> and \<^verbatim>\<open>lsb_\<close>.\<close>

record BasicPort =
  msb :: size_t
  lsb :: size_t

text \<open>\<^verbatim>\<open>BasicPort::make_invalid\<close>: set a default invalid port.\<close>

definition make_invalid :: "BasicPort \<Rightarrow> BasicPort" where
  "make_invalid p = p\<lparr>lsb := 1, msb := 0\<rparr>"

text \<open>The default constructor \<^verbatim>\<open>BasicPort::BasicPort()\<close>.\<close>

definition BasicPort_default :: BasicPort where
  "BasicPort_default = \<lparr>msb = 0, lsb = 1\<rparr>"

text \<open>\<^verbatim>\<open>BasicPort::is_valid\<close>.\<close>

definition is_valid :: "BasicPort \<Rightarrow> bool" where
  "is_valid p = (if msb p < lsb p then False else True)"

text \<open>\<^verbatim>\<open>BasicPort::get_width\<close>; the arithmetic is that of \<^verbatim>\<open>size_t\<close>.\<close>

definition get_width :: "BasicPort \<Rightarrow> size_t" where
  "get_width p = (if is_valid p = True then msb p - lsb p + 1 else 0)"

definition get_msb :: "BasicPort \<Rightarrow> size_t" where
  "get_msb p = msb p"

definition get_lsb :: "BasicPort \<Rightarrow> size_t" where
  "get_lsb p = lsb p"

definition set_lsb :: "size_t \<Rightarrow> BasicPort \<Rightarrow> BasicPort" where
  "set_lsb l p = p\<lparr>lsb := l\<rparr>"

definition set_msb :: "size_t \<Rightarrow> BasicPort \<Rightarrow> BasicPort" where
  "set_msb m p = p\<lparr>msb := m\<rparr>"

text \<open>\<^verbatim>\<open>BasicPort::set_width(size_t width)\<close>.\<close>

definition set_width :: "size_t \<Rightarrow> BasicPort \<Rightarrow> BasicPort" where
  "set_width width p =
     (if 0 = width then make_invalid p
      else p\<lparr>lsb := 0, msb := width - 1\<rparr>)"

text \<open>The overload \<^verbatim>\<open>BasicPort::set_width(size_t lsb, size_t msb)\<close>.\<close>

definition set_width_lsb_msb :: "size_t \<Rightarrow> size_t \<Rightarrow> BasicPort \<Rightarrow> BasicPort" where
  "set_width_lsb_msb l m p =
     (if l > m then make_invalid p
      else set_msb m (set_lsb l p))"

text \<open>\<^verbatim>\<open>BasicPort::expand\<close>.\<close>

definition expand :: "size_t \<Rightarrow> BasicPort \<Rightarrow> BasicPort" where
  "expand width p =
     (if 0 = width then p
      else if 0 = get_width p then p\<lparr>lsb := 0, msb := width\<rparr>
      else p\<lparr>msb := msb p + width\<rparr>)"

text \<open>\<^verbatim>\<open>BasicPort::revert\<close>: swap lsb and msb.\<close>

definition revert :: "BasicPort \<Rightarrow> BasicPort" where
  "revert p = p\<lparr>lsb := msb p, msb := lsb p\<rparr>"

text \<open>
  \<^verbatim>\<open>BasicPort::rotate\<close>: the returned pair is the boolean result and the port after
  the call.
\<close>

definition rotate_port :: "size_t \<Rightarrow> BasicPort \<Rightarrow> bool \<times> BasicPort" where
  "rotate_port offset p =
     (if 0 = offset \<or> 0 = get_width p then (True, p)
      else if size_t_max - msb p < offset then (False, p)
      else (True, p\<lparr>lsb := lsb p + offset, msb := msb p + offset\<rparr>))"

text \<open>\<^verbatim>\<open>BasicPort::counter_rotate\<close>.\<close>

definition counter_rotate :: "size_t \<Rightarrow> BasicPort \<Rightarrow> bool \<times> BasicPort" where
  "counter_rotate offset p =
     (if 0 = offset \<or> 0 = get_width p then (True, p)
      else if size_t_min + lsb p < offset then (False, p)
      else (True, p\<lparr>lsb := lsb p - offset, msb := msb p - offset\<rparr>))"

text \<open>\<^verbatim>\<open>BasicPort::reset\<close>.\<close>

definition reset :: "BasicPort \<Rightarrow> BasicPort" where
  "reset p = make_invalid p"


section \<open>Control flow shared by the netlist writers\<close>

text \<open>
  A call either returns or ends the process: \<^verbatim>\<open>assert\<close> aborts, \<^verbatim>\<open>exit(1)\<close> exits.
  A function that may end the process returns \<open>abort + 'a\<close>, with \<open>Inl\<close> for the
  process ending there.
\<close>

datatype abort = AssertionFailed | Exit1

definition and_then :: "abort + 'a \<Rightarrow> ('a \<Rightarrow> abort + 'b) \<Rightarrow> abort + 'b" where
  "and_then m f = (case m of Inl e \<Rightarrow> Inl e | Inr v \<Rightarrow> f v)"

text \<open>
  The loop \<^verbatim>\<open>for (i = lo; i < hi; i++) body\<close> over a state; a \<^verbatim>\<open>continue\<close> in the
  body is the body returning the state it has.
\<close>

function for_loop :: "nat \<Rightarrow> nat \<Rightarrow> (nat \<Rightarrow> 's \<Rightarrow> abort + 's) \<Rightarrow> 's \<Rightarrow> abort + 's" where
  "for_loop i hi body s =
     (if i < hi
      then (case body i s of Inl e \<Rightarrow> Inl e | Inr s' \<Rightarrow> for_loop (Suc i) hi body s')
      else Inr s)"
  by pat_completeness auto
termination
  by (relation "measure (\<lambda>(i, hi, body, s). hi - i)") auto

declare for_loop.simps [simp del]

text \<open>The same walk over a list of indices, for reasoning about the loops.\<close>

fun for_each :: "('a \<Rightarrow> 's \<Rightarrow> abort + 's) \<Rightarrow> 'a list \<Rightarrow> 's \<Rightarrow> abort + 's" where
  "for_each body [] s = Inr s"
| "for_each body (x # xs) s = and_then (body x s) (for_each body xs)"

text \<open>The messages of \<^verbatim>\<open>vpr_printf\<close>: severity, format string and arguments.\<close>

datatype e_tio_message = TIO_MESSAGE_INFO | TIO_MESSAGE_ERROR

type_synonym vpr_message = "e_tio_message \<times> string \<times> int list"

section \<open>Configuration-bit indices of the grid (verilog\_compact\_netlist.c)\<close>

text \<open>
  The enumerators of \<^verbatim>\<open>e_spice_model_type\<close> that the switch of
  \<^verbatim>\<open>compact_verilog_update_one_spice_model_grid_index\<close> names; \<open>SPICE_MODEL_other\<close>
  stands for any other value of the field, which reaches the \<^verbatim>\<open>default\<close> branch.
\<close>

datatype e_spice_model_type =
    SPICE_MODEL_INVBUF | SPICE_MODEL_PASSGATE | SPICE_MODEL_LUT | SPICE_MODEL_MUX
  | SPICE_MODEL_WIRE | SPICE_MODEL_CHAN_WIRE | SPICE_MODEL_FF | SPICE_MODEL_HARDLOGIC
  | SPICE_MODEL_GATE | SPICE_MODEL_SCFF | SPICE_MODEL_SRAM | SPICE_MODEL_IOPAD
  | SPICE_MODEL_other

text \<open>
  The fields of \<^verbatim>\<open>t_spice_model\<close>, \<^verbatim>\<open>t_pb_type\<close>, the type descriptor and the grid tile
  that this file reads and writes. The two-dimensional arrays are functions of the
  coordinate. A \<^verbatim>\<open>t_type_ptr\<close> is compared by address; a descriptor carries its
  \<open>index\<close> in the array of type descriptors, so two pointers are equal exactly when
  the descriptors are. The \<^verbatim>\<open>int\<close> fields are integers (signed overflow is undefined
  in C and not modelled).
\<close>

record t_spice_model =
  model_type :: e_spice_model_type
  cnt :: int
  grid_index_low :: "nat \<times> nat \<Rightarrow> int"
  grid_index_high :: "nat \<times> nat \<Rightarrow> int"

record t_pb_type =
  physical_mode_num_conf_bits :: int
  physical_mode_num_reserved_conf_bits :: int
  physical_mode_num_iopads :: int

record t_type_descriptor =
  index :: nat
  name :: string
  capacity :: int
  pb_type :: t_pb_type

type_synonym t_type_ptr = t_type_descriptor

record t_grid_tile =
  grid_type :: t_type_ptr
  offset :: int

text \<open>The globals of VPR that the pass reads: the device extents, the grid and the two
  distinguished type pointers.\<close>

record globals =
  nx :: nat
  ny :: nat
  grid :: "nat \<Rightarrow> nat \<Rightarrow> t_grid_tile"
  EMPTY_TYPE :: t_type_ptr
  IO_TYPE :: t_type_ptr

text \<open>The fields of \<^verbatim>\<open>t_sram_orgz_info\<close> that the pass reads and writes.\<close>

record t_sram_orgz_info =
  num_mem_bit :: int
  num_bl :: int
  num_wl :: int
  grid_reserved_conf_bits :: "nat \<times> nat \<Rightarrow> int"
  grid_conf_bits_lsb :: "nat \<times> nat \<Rightarrow> int"
  grid_conf_bits_msb :: "nat \<times> nat \<Rightarrow> int"

text \<open>
  Modelled from the spec: the accessors of the global bit counter
  (\<^verbatim>\<open>get_sram_orgz_info_num_mem_bit\<close>, \<^verbatim>\<open>update_sram_orgz_info_num_mem_bit\<close>,
  \<^verbatim>\<open>get_sram_orgz_info_num_blwl\<close>, \<^verbatim>\<open>update_sram_orgz_info_num_blwl\<close>) are declared
  in fpga\_x2p\_utils.h and not part of this file; they read and write the counters.
\<close>

definition get_sram_orgz_info_num_mem_bit :: "t_sram_orgz_info \<Rightarrow> int" where
  "get_sram_orgz_info_num_mem_bit info = num_mem_bit info"

definition update_sram_orgz_info_num_mem_bit :: "t_sram_orgz_info \<Rightarrow> int \<Rightarrow> t_sram_orgz_info" where
  "update_sram_orgz_info_num_mem_bit info n = info\<lparr>num_mem_bit := n\<rparr>"

definition get_sram_orgz_info_num_blwl :: "t_sram_orgz_info \<Rightarrow> int \<times> int" where
  "get_sram_orgz_info_num_blwl info = (num_bl info, num_wl info)"

definition update_sram_orgz_info_num_blwl :: "t_sram_orgz_info \<Rightarrow> int \<Rightarrow> int \<Rightarrow> t_sram_orgz_info" where
  "update_sram_orgz_info_num_blwl info bl wl = info\<lparr>num_bl := bl, num_wl := wl\<rparr>"

text \<open>The body of the loop of \<^verbatim>\<open>compact_verilog_update_one_spice_model_grid_index\<close>
  for one model.\<close>

definition stamp_spice_model :: "t_type_ptr \<Rightarrow> nat \<Rightarrow> nat \<Rightarrow> t_spice_model \<Rightarrow> abort + t_spice_model" where
  "stamp_spice_model phy_block_type grid_x grid_y m =
     (case model_type m of
        SPICE_MODEL_INVBUF \<Rightarrow> Inr m
      | SPICE_MODEL_PASSGATE \<Rightarrow> Inr m
      | SPICE_MODEL_LUT \<Rightarrow> Inr m
      | SPICE_MODEL_MUX \<Rightarrow> Inr m
      | SPICE_MODEL_WIRE \<Rightarrow> Inr m
      | SPICE_MODEL_CHAN_WIRE \<Rightarrow> Inr m
      | SPICE_MODEL_FF \<Rightarrow> Inr m
      | SPICE_MODEL_HARDLOGIC \<Rightarrow> Inr m
      | SPICE_MODEL_GATE \<Rightarrow> Inr m
      | SPICE_MODEL_SCFF \<Rightarrow>
          (let stamped_cnt = cnt m;
               high = stamped_cnt
                      + capacity phy_block_type * physical_mode_num_conf_bits (pb_type phy_block_type)
           in Inr (m\<lparr>grid_index_low := (grid_index_low m)((grid_x, grid_y) := stamped_cnt),
                     grid_index_high := (grid_index_high m)((grid_x, grid_y) := high),
                     cnt := high\<rparr>))
      | SPICE_MODEL_SRAM \<Rightarrow>
          (let stamped_cnt = cnt m;
               high = stamped_cnt
                      + capacity phy_block_type * physical_mode_num_conf_bits (pb_type phy_block_type)
           in Inr (m\<lparr>grid_index_low := (grid_index_low m)((grid_x, grid_y) := stamped_cnt),
                     grid_index_high := (grid_index_high m)((grid_x, grid_y) := high),
                     cnt := high\<rparr>))
      | SPICE_MODEL_IOPAD \<Rightarrow>
          (let stamped_cnt = cnt m;
               high = stamped_cnt
                      + capacity phy_block_type * physical_mode_num_iopads (pb_type phy_block_type)
           in Inr (m\<lparr>grid_index_low := (grid_index_low m)((grid_x, grid_y) := stamped_cnt),
                     grid_index_high := (grid_index_high m)((grid_x, grid_y) := high),
                     cnt := high\<rparr>))
      | SPICE_MODEL_other \<Rightarrow> Inl Exit1)"

text \<open>\<^verbatim>\<open>compact_verilog_update_one_spice_model_grid_index\<close>: the array of
  \<^verbatim>\<open>num_spice_models\<close> models is the list, walked from index 0.\<close>

fun compact_verilog_update_one_spice_model_grid_index ::
  "t_type_ptr \<Rightarrow> nat \<Rightarrow> nat \<Rightarrow> t_spice_model list \<Rightarrow> abort + t_spice_model list" where
  "compact_verilog_update_one_spice_model_grid_index phy_block_type grid_x grid_y [] = Inr []"
| "compact_verilog_update_one_spice_model_grid_index phy_block_type grid_x grid_y (m # ms) =
     (case stamp_spice_model phy_block_type grid_x grid_y m of
        Inl e \<Rightarrow> Inl e
      | Inr m' \<Rightarrow>
          (case compact_verilog_update_one_spice_model_grid_index phy_block_type grid_x grid_y ms of
             Inl e \<Rightarrow> Inl e
           | Inr ms' \<Rightarrow> Inr (m' # ms')))"

text \<open>\<^verbatim>\<open>compact_verilog_update_sram_orgz_info_grid_index\<close>, statement by statement.\<close>

definition compact_verilog_update_sram_orgz_info_grid_index ::
  "t_sram_orgz_info \<Rightarrow> t_type_ptr \<Rightarrow> nat \<Rightarrow> nat \<Rightarrow> t_sram_orgz_info" where
  "compact_verilog_update_sram_orgz_info_grid_index cur_sram_orgz_info phy_block_type grid_x grid_y =
     (let cur_num_conf_bits = get_sram_orgz_info_num_mem_bit cur_sram_orgz_info;
          (cur_num_bl, cur_num_wl) = get_sram_orgz_info_num_blwl cur_sram_orgz_info;
          i1 = cur_sram_orgz_info\<lparr>grid_reserved_conf_bits :=
                 (grid_reserved_conf_bits cur_sram_orgz_info)((grid_x, grid_y) :=
                    physical_mode_num_reserved_conf_bits (pb_type phy_block_type))\<rparr>;
          i2 = i1\<lparr>grid_conf_bits_lsb :=
                 (grid_conf_bits_lsb i1)((grid_x, grid_y) := cur_num_conf_bits)\<rparr>;
          i3 = i2\<lparr>grid_conf_bits_msb :=
                 (grid_conf_bits_msb i2)((grid_x, grid_y) := cur_num_conf_bits)\<rparr>;
          i4 = i3\<lparr>grid_conf_bits_msb :=
                 (grid_conf_bits_msb i3)((grid_x, grid_y) :=
                    grid_conf_bits_msb i3 (grid_x, grid_y)
                    + capacity phy_block_type * physical_mode_num_conf_bits (pb_type phy_block_type))\<rparr>;
          cur_num_conf_bits = grid_conf_bits_msb i4 (grid_x, grid_y);
          cur_num_bl = grid_conf_bits_msb i4 (grid_x, grid_y);
          cur_num_wl = grid_conf_bits_msb i4 (grid_x, grid_y);
          i5 = update_sram_orgz_info_num_mem_bit i4 cur_num_conf_bits
      in update_sram_orgz_info_num_blwl i5 cur_num_bl cur_num_wl)"

text \<open>What \<^verbatim>\<open>compact_verilog_update_grid_spice_model_and_sram_orgz_info\<close> updates:
  the array of spice models and the SRAM organisation.\<close>

record grid_index_state =
  spice_model :: "t_spice_model list"
  sram_orgz_info :: t_sram_orgz_info

text \<open>The two calls that every loop of the pass makes for a tile it does not bypass.\<close>

definition update_grid_index :: "t_type_ptr \<Rightarrow> nat \<Rightarrow> nat \<Rightarrow> grid_index_state \<Rightarrow> abort + grid_index_state" where
  "update_grid_index phy_block_type ix iy st =
     (case compact_verilog_update_one_spice_model_grid_index phy_block_type ix iy (spice_model st) of
        Inl e \<Rightarrow> Inl e
      | Inr ms \<Rightarrow>
          Inr \<lparr>spice_model = ms,
               sram_orgz_info =
                 compact_verilog_update_sram_orgz_info_grid_index (sram_orgz_info st) phy_block_type ix iy\<rparr>)"

text \<open>The body of the loop over the core grids.\<close>

definition core_grid_body :: "globals \<Rightarrow> nat \<Rightarrow> nat \<Rightarrow> grid_index_state \<Rightarrow> abort + grid_index_state" where
  "core_grid_body g ix iy st =
     (if \<not> (IO_TYPE g \<noteq> grid_type (grid g ix iy)) then Inl AssertionFailed
      else if EMPTY_TYPE g = grid_type (grid g ix iy) then Inr st
      else if 0 < offset (grid g ix iy) then Inr st
      else update_grid_index (grid_type (grid g ix iy)) ix iy st)"

text \<open>The body of each of the four loops over the I/O grids.\<close>

definition io_grid_body :: "globals \<Rightarrow> nat \<Rightarrow> nat \<Rightarrow> grid_index_state \<Rightarrow> abort + grid_index_state" where
  "io_grid_body g ix iy st =
     (if \<not> (IO_TYPE g = grid_type (grid g ix iy)) then Inl AssertionFailed
      else update_grid_index (grid_type (grid g ix iy)) ix iy st)"

text \<open>
  \<^verbatim>\<open>compact_verilog_update_grid_spice_model_and_sram_orgz_info\<close>. The result is the
  messages printed and the state at the return. (The grid is an argument here, so
  \<^verbatim>\<open>assert(NULL != grid)\<close> has nothing to check.)
\<close>

definition compact_verilog_update_grid_spice_model_and_sram_orgz_info ::
  "globals \<Rightarrow> grid_index_state \<Rightarrow> abort + (vpr_message list \<times> grid_index_state)" where
  "compact_verilog_update_grid_spice_model_and_sram_orgz_info g st =
     (if 0 = nx g \<or> 0 = ny g
      then Inr ([(TIO_MESSAGE_ERROR, ''(File:%s,[LINE%d])Invalid grid size (nx=%d, ny=%d)!'',
                  [int (nx g), int (ny g)])], st)
      else
        and_then (for_loop 1 (nx g + 1) (\<lambda>ix. for_loop 1 (ny g + 1) (\<lambda>iy. core_grid_body g ix iy)) st)
          (\<lambda>st1.
        and_then (for_loop 1 (nx g + 1) (\<lambda>ix. io_grid_body g ix (ny g + 1)) st1)
          (\<lambda>st2.
        and_then (for_loop 1 (ny g + 1) (\<lambda>iy. io_grid_body g (nx g + 1) iy) st2)
          (\<lambda>st3.
        and_then (for_loop 1 (nx g + 1) (\<lambda>ix. io_grid_body g ix 0) st3)
          (\<lambda>st4.
        and_then (for_loop 1 (ny g + 1) (\<lambda>iy. io_grid_body g 0 iy) st4)
          (\<lambda>st5.
        Inr ([(TIO_MESSAGE_INFO, ''Grid size of FPGA: nx=%d ny=%d'', [int (nx g) + 1, int (ny g) + 1]),
              (TIO_MESSAGE_INFO, ''Generating core grids...'', []),
              (TIO_MESSAGE_INFO, ''Generating IO grids...'', [])], st5)))))))"




text \<open>\<^verbatim>\<open>generate_compact_verilog_grid_module_name_prefix\<close>; the prefix and the names
  of the sides are parameters (\<^verbatim>\<open>grid_verilog_file_name_prefix\<close> and
  \<^verbatim>\<open>convert_side_index_to_string\<close> are defined in other files).\<close>

definition generate_compact_verilog_grid_module_name_prefix ::
  "string \<Rightarrow> (int \<Rightarrow> string) \<Rightarrow> globals \<Rightarrow> t_type_ptr \<Rightarrow> int \<Rightarrow> abort + string" where
  "generate_compact_verilog_grid_module_name_prefix grid_verilog_file_name_prefix
       convert_side_index_to_string g phy_block_type border_side =
     (let subckt_name = grid_verilog_file_name_prefix in
      if IO_TYPE g = phy_block_type \<and> \<not> (-1 < border_side \<and> border_side < 4)
      then Inl AssertionFailed
      else if IO_TYPE g = phy_block_type
      then Inr (subckt_name @ convert_side_index_to_string border_side @ ''_'')
      else Inr subckt_name)"

text \<open>\<^verbatim>\<open>generate_compact_verilog_grid_module_name\<close>.\<close>

definition generate_compact_verilog_grid_module_name ::
  "string \<Rightarrow> (int \<Rightarrow> string) \<Rightarrow> globals \<Rightarrow> t_type_ptr \<Rightarrow> int \<Rightarrow> abort + string" where
  "generate_compact_verilog_grid_module_name grid_verilog_file_name_prefix
       convert_side_index_to_string g phy_block_type border_side =
     and_then (generate_compact_verilog_grid_module_name_prefix grid_verilog_file_name_prefix
                 convert_side_index_to_string g phy_block_type border_side)
       (\<lambda>subckt_name. Inr (subckt_name @ name phy_block_type))"

text \<open>
  The order of the tiles as the specification words it: the interior tiles with x
  outside and y inside, without the empty tiles and the tiles that a block of several
  tiles overlaps, then the top, right, bottom and left borders.
\<close>

definition interior_tiles :: "globals \<Rightarrow> (nat \<times> nat) list" where
  "interior_tiles g =
     filter (\<lambda>(x, y). EMPTY_TYPE g \<noteq> grid_type (grid g x y) \<and> \<not> 0 < offset (grid g x y))
       (List.product [1 ..< nx g + 1] [1 ..< ny g + 1])"

definition border_tiles :: "globals \<Rightarrow> (nat \<times> nat) list" where
  "border_tiles g =
     map (\<lambda>x. (x, ny g + 1)) [1 ..< nx g + 1]
     @ map (\<lambda>y. (nx g + 1, y)) [1 ..< ny g + 1]
     @ map (\<lambda>x. (x, 0)) [1 ..< nx g + 1]
     @ map (\<lambda>y. (0, y)) [1 ..< ny g + 1]"

definition device_tiles_in_bitstream_order :: "globals \<Rightarrow> (nat \<times> nat) list" where
  "device_tiles_in_bitstream_order g = interior_tiles g @ border_tiles g"

text \<open>Visiting a list of coordinates in its order, with the two updates of a tile.\<close>

fun visit_tiles :: "globals \<Rightarrow> (nat \<times> nat) list \<Rightarrow> grid_index_state \<Rightarrow> abort + grid_index_state" where
  "visit_tiles g [] st = Inr st"
| "visit_tiles g ((x, y) # cs) st =
     and_then (update_grid_index (grid_type (grid g x y)) x y st) (visit_tiles g cs)"

text \<open>The same for the SRAM organisation alone, which cannot fail.\<close>

fun assign_conf_bits :: "globals \<Rightarrow> (nat \<times> nat) list \<Rightarrow> t_sram_orgz_info \<Rightarrow> t_sram_orgz_info" where
  "assign_conf_bits g [] info = info"
| "assign_conf_bits g ((x, y) # cs) info =
     assign_conf_bits g cs
       (compact_verilog_update_sram_orgz_info_grid_index info (grid_type (grid g x y)) x y)"


section \<open>Instances of switch blocks and connection blocks in the top netlist\<close>

text \<open>
  \<^verbatim>\<open>DeviceCoordinator\<close> with \<^verbatim>\<open>get_x\<close> and \<^verbatim>\<open>get_y\<close>; the channel types of
  \<^verbatim>\<open>t_rr_type\<close> that a connection block has.
\<close>

type_synonym DeviceCoordinator = "nat \<times> nat"

definition get_x :: "DeviceCoordinator \<Rightarrow> nat" where
  "get_x c = fst c"

definition get_y :: "DeviceCoordinator \<Rightarrow> nat" where
  "get_y c = snd c"

datatype t_rr_type = CHANX | CHANY

text \<open>
  Modelled from the spec: class \<^verbatim>\<open>RRGSB\<close> and the device-wide store \<^verbatim>\<open>DeviceRRGSB\<close>
  (rr\_blocks.h) are not part of the sources. A GSB is what the writers below ask of
  it: its coordinate, and for each channel type whether its connection block exists
  and at which coordinate. The store answers with the GSB of a coordinate and with the
  representative (unique module) of a coordinate.
\<close>

record RRGSB =
  sb_coordinator :: DeviceCoordinator
  cbx_exist :: bool
  cby_exist :: bool
  cbx_coordinator :: DeviceCoordinator
  cby_coordinator :: DeviceCoordinator

definition get_sb_coordinator :: "RRGSB \<Rightarrow> DeviceCoordinator" where
  "get_sb_coordinator rr_gsb = sb_coordinator rr_gsb"

definition get_cb_coordinator :: "RRGSB \<Rightarrow> t_rr_type \<Rightarrow> DeviceCoordinator" where
  "get_cb_coordinator rr_gsb cb_type =
     (case cb_type of CHANX \<Rightarrow> cbx_coordinator rr_gsb | CHANY \<Rightarrow> cby_coordinator rr_gsb)"

definition gsb_is_cb_exist :: "RRGSB \<Rightarrow> t_rr_type \<Rightarrow> bool" where
  "gsb_is_cb_exist rr_gsb cb_type =
     (case cb_type of CHANX \<Rightarrow> cbx_exist rr_gsb | CHANY \<Rightarrow> cby_exist rr_gsb)"

record DeviceRRGSB =
  gsb_range :: DeviceCoordinator
  gsb :: "nat \<Rightarrow> nat \<Rightarrow> RRGSB"
  sb_unique_module :: "DeviceCoordinator \<Rightarrow> RRGSB"
  cb_unique_module :: "t_rr_type \<Rightarrow> DeviceCoordinator \<Rightarrow> RRGSB"

definition get_gsb_range :: "DeviceRRGSB \<Rightarrow> DeviceCoordinator" where
  "get_gsb_range device_rr_gsb = gsb_range device_rr_gsb"

definition get_gsb :: "DeviceRRGSB \<Rightarrow> nat \<Rightarrow> nat \<Rightarrow> RRGSB" where
  "get_gsb device_rr_gsb ix iy = gsb device_rr_gsb ix iy"


definition get_cb_unique_module :: "DeviceRRGSB \<Rightarrow> t_rr_type \<Rightarrow> DeviceCoordinator \<Rightarrow> RRGSB" where
  "get_cb_unique_module device_rr_gsb cb_type coordinator =
     cb_unique_module device_rr_gsb cb_type coordinator"

text \<open>
  A name printed into the netlist is kept as the call that makes it: the name
  generators of \<^verbatim>\<open>RRGSB\<close> are not part of the sources, so a name is the generator and
  the GSB it is called on.
\<close>

datatype verilog_name =
    gen_sb_verilog_module_name RRGSB
  | gen_sb_verilog_instance_name RRGSB
  | gen_cb_verilog_module_name RRGSB t_rr_type
  | gen_cb_verilog_instance_name RRGSB t_rr_type

text \<open>
  What a writer prints for one instance: the module name and the instance name, in
  this order, before the port connections (which are not modelled). The file is the
  list of the instances printed so far; a \<^verbatim>\<open>FILE*\<close> is \<open>None\<close> when it is \<^verbatim>\<open>NULL\<close>.
\<close>

record verilog_instance =
  printed_module_name :: verilog_name
  printed_instance_name :: verilog_name

type_synonym FILE = "verilog_instance list"



text \<open>\<^verbatim>\<open>dump_compact_verilog_defined_one_connection_box\<close>.\<close>

definition dump_compact_verilog_defined_one_connection_box ::
  "DeviceRRGSB \<Rightarrow> FILE option \<Rightarrow> RRGSB \<Rightarrow> t_rr_type \<Rightarrow> abort + FILE" where
  "dump_compact_verilog_defined_one_connection_box device_rr_gsb fp rr_gsb cb_type =
     (case fp of
        None \<Rightarrow> Inl Exit1
      | Some f \<Rightarrow>
          (let coordinator = get_sb_coordinator rr_gsb;
               unique_mirror = get_cb_unique_module device_rr_gsb cb_type coordinator
           in Inr (f @ [\<lparr>printed_module_name = gen_cb_verilog_module_name unique_mirror cb_type,
                         printed_instance_name = gen_cb_verilog_instance_name rr_gsb cb_type\<rparr>])))"

text \<open>
  The body of the loops of \<^verbatim>\<open>dump_compact_verilog_defined_connection_boxes\<close> at one
  GSB. The device-level test \<^verbatim>\<open>is_cb_exist\<close> is defined in another file and is a
  parameter.
\<close>

definition connection_boxes_body ::
  "(t_rr_type \<Rightarrow> nat \<Rightarrow> nat \<Rightarrow> bool) \<Rightarrow> DeviceRRGSB \<Rightarrow> nat \<Rightarrow> nat \<Rightarrow> FILE \<Rightarrow> abort + FILE" where
  "connection_boxes_body is_cb_exist device_rr_gsb ix iy f =
     (let rr_gsb = get_gsb device_rr_gsb ix iy;
          cbx_coordinator = get_cb_coordinator rr_gsb CHANX
      in and_then
           (if is_cb_exist CHANX (get_x cbx_coordinator) (get_y cbx_coordinator) = True
               \<and> gsb_is_cb_exist rr_gsb CHANX = True
            then dump_compact_verilog_defined_one_connection_box device_rr_gsb (Some f) rr_gsb CHANX
            else Inr f)
           (\<lambda>f1.
              (let cby_coordinator = get_cb_coordinator rr_gsb CHANY
               in if is_cb_exist CHANY (get_x cby_coordinator) (get_y cby_coordinator) = True
                     \<and> gsb_is_cb_exist rr_gsb CHANY = True
                  then dump_compact_verilog_defined_one_connection_box device_rr_gsb (Some f1) rr_gsb CHANY
                  else Inr f1)))"

text \<open>\<^verbatim>\<open>dump_compact_verilog_defined_connection_boxes\<close>.\<close>

definition dump_compact_verilog_defined_connection_boxes ::
  "(t_rr_type \<Rightarrow> nat \<Rightarrow> nat \<Rightarrow> bool) \<Rightarrow> DeviceRRGSB \<Rightarrow> FILE option \<Rightarrow> abort + FILE" where
  "dump_compact_verilog_defined_connection_boxes is_cb_exist device_rr_gsb fp =
     (let sb_range = get_gsb_range device_rr_gsb in
      case fp of
        None \<Rightarrow> Inl Exit1
      | Some f0 \<Rightarrow>
          for_loop 0 (get_x sb_range)
            (\<lambda>ix. for_loop 0 (get_y sb_range)
               (\<lambda>iy. connection_boxes_body is_cb_exist device_rr_gsb ix iy))
            f0)"


definition cb_instance_at :: "DeviceRRGSB \<Rightarrow> t_rr_type \<Rightarrow> nat \<times> nat \<Rightarrow> verilog_instance" where
  "cb_instance_at device_rr_gsb cb_type c =
     \<lparr>printed_module_name = gen_cb_verilog_module_name
        (get_cb_unique_module device_rr_gsb cb_type
           (get_sb_coordinator (get_gsb device_rr_gsb (fst c) (snd c)))) cb_type,
      printed_instance_name = gen_cb_verilog_instance_name (get_gsb device_rr_gsb (fst c) (snd c)) cb_type\<rparr>"

text \<open>The two existence tests of a connection block at the GSB of a coordinate.\<close>

definition cb_checks_pass ::
  "(t_rr_type \<Rightarrow> nat \<Rightarrow> nat \<Rightarrow> bool) \<Rightarrow> DeviceRRGSB \<Rightarrow> t_rr_type \<Rightarrow> nat \<times> nat \<Rightarrow> bool" where
  "cb_checks_pass is_cb_exist device_rr_gsb cb_type c =
     (let rr_gsb = get_gsb device_rr_gsb (fst c) (snd c);
          cb_coordinator = get_cb_coordinator rr_gsb cb_type
      in is_cb_exist cb_type (get_x cb_coordinator) (get_y cb_coordinator)
         \<and> gsb_is_cb_exist rr_gsb cb_type)"

text \<open>What the connection-box writer prints at one GSB: the calls of one pass of the
  loop body on an empty file.\<close>

definition cb_instances_at ::
  "(t_rr_type \<Rightarrow> nat \<Rightarrow> nat \<Rightarrow> bool) \<Rightarrow> DeviceRRGSB \<Rightarrow> nat \<times> nat \<Rightarrow> verilog_instance list" where
  "cb_instances_at is_cb_exist device_rr_gsb c =
     (case connection_boxes_body is_cb_exist device_rr_gsb (fst c) (snd c) [] of
        Inl e \<Rightarrow> []
      | Inr f \<Rightarrow> f)"


section \<open>Conditions on the input and a small device\<close>

text \<open>The messages of a pass over the grid that reaches its end.\<close>

definition pass_messages :: "globals \<Rightarrow> vpr_message list" where
  "pass_messages g =
     [(TIO_MESSAGE_INFO, ''Grid size of FPGA: nx=%d ny=%d'', [int (nx g) + 1, int (ny g) + 1]),
      (TIO_MESSAGE_INFO, ''Generating core grids...'', []),
      (TIO_MESSAGE_INFO, ''Generating IO grids...'', [])]"

text \<open>
  The two assertions of the pass, as a condition on the grid: no core tile is an I/O
  tile, and every tile that the four border loops walk is one.
\<close>

definition grid_tiles_well_placed :: "globals \<Rightarrow> bool" where
  "grid_tiles_well_placed g =
     ((\<forall>(x, y) \<in> set (List.product [1 ..< nx g + 1] [1 ..< ny g + 1]).
          IO_TYPE g \<noteq> grid_type (grid g x y))
      \<and> (\<forall>(x, y) \<in> set (border_tiles g). IO_TYPE g = grid_type (grid g x y)))"

text \<open>No spice model has a type outside the enumeration.\<close>

definition spice_models_known :: "grid_index_state \<Rightarrow> bool" where
  "spice_models_known st = (\<forall>m \<in> set (spice_model st). model_type m \<noteq> SPICE_MODEL_other)"

text \<open>
  A device of two by two core tiles inside a ring of I/O blocks, with empty corners;
  the core tile (1, 2) is empty, the other three hold logic blocks. Eighteen
  configuration bits of the routing are already counted when the pass over the grid
  starts.
\<close>

definition EMPTY_TYPE_example :: t_type_descriptor where
  "EMPTY_TYPE_example = \<lparr>index = 0, name = ''<EMPTY>'', capacity = 0,
     pb_type = \<lparr>physical_mode_num_conf_bits = 0, physical_mode_num_reserved_conf_bits = 0,
                 physical_mode_num_iopads = 0\<rparr>\<rparr>"

definition IO_TYPE_example :: t_type_descriptor where
  "IO_TYPE_example = \<lparr>index = 1, name = ''io'', capacity = 8,
     pb_type = \<lparr>physical_mode_num_conf_bits = 1, physical_mode_num_reserved_conf_bits = 0,
                 physical_mode_num_iopads = 1\<rparr>\<rparr>"

definition FILL_TYPE_example :: t_type_descriptor where
  "FILL_TYPE_example = \<lparr>index = 2, name = ''clb'', capacity = 1,
     pb_type = \<lparr>physical_mode_num_conf_bits = 10, physical_mode_num_reserved_conf_bits = 2,
                 physical_mode_num_iopads = 0\<rparr>\<rparr>"

definition grid_example :: "nat \<Rightarrow> nat \<Rightarrow> t_grid_tile" where
  "grid_example x y =
     (if (x = 0 \<or> x = 3) \<and> (y = 0 \<or> y = 3) then \<lparr>grid_type = EMPTY_TYPE_example, offset = 0\<rparr>
      else if x = 0 \<or> x = 3 \<or> y = 0 \<or> y = 3 then \<lparr>grid_type = IO_TYPE_example, offset = 0\<rparr>
      else if x = 1 \<and> y = 2 then \<lparr>grid_type = EMPTY_TYPE_example, offset = 0\<rparr>
      else \<lparr>grid_type = FILL_TYPE_example, offset = 0\<rparr>)"

definition globals_example :: globals where
  "globals_example = \<lparr>nx = 2, ny = 2, grid = grid_example,
     EMPTY_TYPE = EMPTY_TYPE_example, IO_TYPE = IO_TYPE_example\<rparr>"

definition sram_orgz_info_example :: t_sram_orgz_info where
  "sram_orgz_info_example = \<lparr>num_mem_bit = 18, num_bl = 18, num_wl = 18,
     grid_reserved_conf_bits = (\<lambda>c. 0), grid_conf_bits_lsb = (\<lambda>c. 0),
     grid_conf_bits_msb = (\<lambda>c. 0)\<rparr>"

definition state_example :: grid_index_state where
  "state_example = \<lparr>spice_model =
       [\<lparr>model_type = SPICE_MODEL_SRAM, cnt = 0,
         grid_index_low = (\<lambda>c. 0), grid_index_high = (\<lambda>c. 0)\<rparr>,
        \<lparr>model_type = SPICE_MODEL_IOPAD, cnt = 0,
         grid_index_low = (\<lambda>c. 0), grid_index_high = (\<lambda>c. 0)\<rparr>],
     sram_orgz_info = sram_orgz_info_example\<rparr>"

text \<open>The same device with an I/O block placed on the core tile (1, 1).\<close>

definition grid_interior_io_example :: "nat \<Rightarrow> nat \<Rightarrow> t_grid_tile" where
  "grid_interior_io_example x y =
     (if x = 1 \<and> y = 1 then \<lparr>grid_type = IO_TYPE_example, offset = 0\<rparr> else grid_example x y)"

text \<open>
  A store of two by two GSBs. The device-level test finds a connection block of the X
  channel where \<open>x > 0\<close> and of the Y channel where \<open>y > 0\<close>; the GSBs of row 1 have no
  connection block of the Y channel. The switch blocks of a row share the
  representative of column 0, all connection blocks that of (1, 1).
\<close>

definition gsb_example :: "nat \<Rightarrow> nat \<Rightarrow> RRGSB" where
  "gsb_example ix iy = \<lparr>sb_coordinator = (ix, iy), cbx_exist = True, cby_exist = (iy < 1),
     cbx_coordinator = (ix, iy), cby_coordinator = (ix, iy)\<rparr>"

definition device_rr_gsb_example :: DeviceRRGSB where
  "device_rr_gsb_example = \<lparr>gsb_range = (2, 2), gsb = gsb_example,
     sb_unique_module = (\<lambda>c. gsb_example 0 (snd c)),
     cb_unique_module = (\<lambda>t c. gsb_example 1 1)\<rparr>"

definition is_cb_exist_example :: "t_rr_type \<Rightarrow> nat \<Rightarrow> nat \<Rightarrow> bool" where
  "is_cb_exist_example cb_type x y = (case cb_type of CHANX \<Rightarrow> 0 < x | CHANY \<Rightarrow> 0 < y)"

section \<open>Lemmas about the device ports\<close>

lemma is_valid_iff: "is_valid p = (lsb p \<le> msb p)"
  by (auto simp: is_valid_def)

lemma unat_size_t_max: "unat size_t_max = 2 ^ 64 - 1"
  by (simp add: size_t_max_def unsigned_minus_1_eq_mask mask_eq_exp_minus_1)

lemma unat_size_t_bound: "unat (x :: size_t) < 2 ^ 64"
  using unsigned_less [of x] by simp

lemma unat_max_minus: "unat (size_t_max - m) = 2 ^ 64 - 1 - unat m"
proof -
  have "m \<le> size_t_max" by (simp add: size_t_max_def)
  then show ?thesis by (simp add: unat_sub unat_size_t_max)
qed

lemma rotate_overflow_iff: "(size_t_max - m < off) = (2 ^ 64 \<le> unat m + unat off)"
  using unat_size_t_bound [of m] by (simp add: word_less_nat_alt unat_max_minus) linarith

lemma unat_add_no_overflow: "unat (a :: size_t) + unat b < 2 ^ 64 \<Longrightarrow> unat (a + b) = unat a + unat b"
  by (simp add: unat_word_ariths)

lemma width_nat: "is_valid p \<Longrightarrow> \<not> (lsb p = 0 \<and> msb p = size_t_max) \<Longrightarrow> unat (get_width p) = unat (msb p) - unat (lsb p) + 1"
proof -
  assume v: "is_valid p" and nf: "\<not> (lsb p = 0 \<and> msb p = size_t_max)"
  have le: "unat (lsb p) \<le> unat (msb p)" using v by (simp add: is_valid_iff word_le_nat_alt)
  have b: "unat (msb p) < 2 ^ 64" by (rule unat_size_t_bound)
  have "unat (lsb p) \<noteq> 0 \<or> unat (msb p) \<noteq> 2 ^ 64 - 1"
    using nf unat_size_t_max by (metis unat_eq_0 word_unat_eq_iff)
  then have lt: "unat (msb p) - unat (lsb p) + 1 < 2 ^ 64" using le b by linarith
  have "unat (msb p - lsb p) = unat (msb p) - unat (lsb p)"
    using le by (simp add: unat_sub word_le_nat_alt)
  then show ?thesis using v lt
    by (simp add: get_width_def unat_word_ariths)
qed

lemma width_zero_iff: "(get_width p = 0) = (\<not> is_valid p \<or> (lsb p = 0 \<and> msb p = size_t_max))"
proof (cases "is_valid p")
  case False then show ?thesis by (simp add: get_width_def)
next
  case True
  show ?thesis
  proof (cases "lsb p = 0 \<and> msb p = size_t_max")
    case True
    then show ?thesis by (simp add: get_width_def size_t_max_def)
  next
    case False
    with True have "unat (get_width p) = unat (msb p) - unat (lsb p) + 1" by (rule width_nat)
    then have "get_width p \<noteq> 0" by (metis Suc_eq_plus1 nat.distinct(1) unat_eq_0 add_is_0 zero_neq_one)
    with True False show ?thesis by simp
  qed
qed

lemma rotate_success_step:
  assumes w: "get_width p \<noteq> 0" and no: "\<not> size_t_max - msb p < off"
  shows "counter_rotate off (p\<lparr>lsb := lsb p + off, msb := msb p + off\<rparr>) = (True, p)"
proof -
  let ?q = "p\<lparr>lsb := lsb p + off, msb := msb p + off\<rparr>"
  have v: "is_valid p" using w by (auto simp: get_width_def split: if_splits)
  have le: "unat (lsb p) \<le> unat (msb p)" using v by (simp add: is_valid_iff word_le_nat_alt)
  have m: "unat (msb p) + unat off < 2 ^ 64" using no by (simp add: rotate_overflow_iff)
  have l: "unat (lsb p) + unat off < 2 ^ 64" using le m by linarith
  have um: "unat (msb p + off) = unat (msb p) + unat off" using m by (rule unat_add_no_overflow)
  have ul: "unat (lsb p + off) = unat (lsb p) + unat off" using l by (rule unat_add_no_overflow)
  have vq: "is_valid ?q" using le by (simp add: is_valid_iff word_le_nat_alt um ul)
  have wq: "get_width ?q = get_width p" using v vq by (simp add: get_width_def)
  have nl: "\<not> size_t_min + lsb ?q < off" by (simp add: size_t_min_def word_less_nat_alt ul)
  show ?thesis using w wq nl
    by (cases "off = 0") (simp_all add: counter_rotate_def)
qed

lemma counter_rotate_noop: "off = 0 \<or> get_width p = 0 \<Longrightarrow> counter_rotate off p = (True, p)"
  by (auto simp: counter_rotate_def)

lemma rotate_then_counter_rotate:
  "rotate_port off p = (True, q) \<Longrightarrow> counter_rotate off q = (True, p)"
  by (auto simp: rotate_port_def rotate_success_step counter_rotate_noop split: if_splits)

lemma rotate_trivial: "off = 0 \<or> \<not> is_valid p \<Longrightarrow> rotate_port off p = (True, p) \<and> counter_rotate off p = (True, p)"
  by (auto simp: rotate_port_def counter_rotate_def get_width_def)

section \<open>Lemmas about the loops and the pass over the grid\<close>

lemma and_then_Inr [simp]: "and_then (Inr v) f = f v"
  by (simp add: and_then_def)

lemma and_then_Inl [simp]: "and_then (Inl e) f = Inl e"
  by (simp add: and_then_def)

lemma and_then_eq_Inr: "(and_then m f = Inr r) = (\<exists>v. m = Inr v \<and> f v = Inr r)"
  by (cases m) simp_all

lemma for_loop_for_each: "for_loop i hi body s = for_each body [i ..< hi] s"
proof (induction i hi body s rule: for_loop.induct)
  case (1 i hi body s)
  show ?case
  proof (cases "i < hi")
    case True
    then have u: "[i ..< hi] = i # [Suc i ..< hi]" by (simp add: upt_conv_Cons)
    show ?thesis
    proof (cases "body i s")
      case (Inl e)
      with True u show ?thesis by (simp add: for_loop.simps [of i])
    next
      case (Inr s')
      with True u "1.IH" [OF True Inr] show ?thesis by (simp add: for_loop.simps [of i])
    qed
  next
    case False
    then show ?thesis by (simp add: for_loop.simps [of i])
  qed
qed

lemma for_each_append: "for_each body (xs @ ys) s = and_then (for_each body xs s) (for_each body ys)"
proof (induction xs arbitrary: s)
  case Nil show ?case by simp
next
  case (Cons x xs)
  show ?case by (cases "body x s") (simp_all add: Cons.IH)
qed

lemma for_each_map: "for_each body (map h xs) s = for_each (\<lambda>x. body (h x)) xs s"
proof (induction xs arbitrary: s)
  case Nil show ?case by simp
next
  case (Cons x xs)
  show ?case by (cases "body (h x) s") (simp_all add: Cons.IH)
qed

lemma for_each_nested:
  "for_each (\<lambda>x. for_each (\<lambda>y. body (x, y)) ys) xs s = for_each body (List.product xs ys) s"
proof (induction xs arbitrary: s)
  case Nil show ?case by simp
next
  case (Cons x xs)
  show ?case
    by (cases "for_each (\<lambda>y. body (x, y)) ys s") (simp_all add: Cons.IH for_each_append for_each_map)
qed

text \<open>The loop over the core grids and the loops over the I/O grids, as walks over
  lists of coordinates.\<close>

lemma core_loop_success:
  "for_each (\<lambda>(x, y). core_grid_body g x y) cs st = Inr st' \<Longrightarrow>
     (\<forall>(x, y) \<in> set cs. IO_TYPE g \<noteq> grid_type (grid g x y)) \<and>
     visit_tiles g (filter (\<lambda>(x, y). EMPTY_TYPE g \<noteq> grid_type (grid g x y) \<and> \<not> 0 < offset (grid g x y)) cs) st = Inr st'"
proof (induction cs arbitrary: st)
  case Nil then show ?case by simp
next
  case (Cons c cs)
  obtain x y where c: "c = (x, y)" by (cases c)
  from Cons.prems c obtain st1 where
    b: "core_grid_body g x y st = Inr st1" and r: "for_each (\<lambda>(x, y). core_grid_body g x y) cs st1 = Inr st'"
    by (auto simp: and_then_eq_Inr)
  from b have nio: "IO_TYPE g \<noteq> grid_type (grid g x y)"
    by (auto simp: core_grid_body_def split: if_splits)
  from Cons.IH [OF r] have ih1: "\<forall>(x, y) \<in> set cs. IO_TYPE g \<noteq> grid_type (grid g x y)"
    and ih2: "visit_tiles g (filter (\<lambda>(x, y). EMPTY_TYPE g \<noteq> grid_type (grid g x y) \<and> \<not> 0 < offset (grid g x y)) cs) st1 = Inr st'"
    by simp_all
  show ?case using b nio ih1 ih2 c
    by (auto simp: core_grid_body_def split: if_splits)
qed

lemma core_loop_eq:
  "\<forall>(x, y) \<in> set cs. IO_TYPE g \<noteq> grid_type (grid g x y) \<Longrightarrow>
   for_each (\<lambda>(x, y). core_grid_body g x y) cs st =
     visit_tiles g (filter (\<lambda>(x, y). EMPTY_TYPE g \<noteq> grid_type (grid g x y) \<and> \<not> 0 < offset (grid g x y)) cs) st"
proof (induction cs arbitrary: st)
  case Nil then show ?case by simp
next
  case (Cons c cs)
  obtain x y where c: "c = (x, y)" by (cases c)
  from Cons.prems have ih: "for_each (\<lambda>(x, y). core_grid_body g x y) cs =
     visit_tiles g (filter (\<lambda>(x, y). EMPTY_TYPE g \<noteq> grid_type (grid g x y) \<and> \<not> 0 < offset (grid g x y)) cs)"
    by (intro ext Cons.IH) simp
  from Cons.prems c have nio: "IO_TYPE g \<noteq> grid_type (grid g x y)" by simp
  have hd: "core_grid_body g x y st =
     (if EMPTY_TYPE g \<noteq> grid_type (grid g x y) \<and> \<not> 0 < offset (grid g x y)
      then update_grid_index (grid_type (grid g x y)) x y st else Inr st)"
    using nio by (simp add: core_grid_body_def)
  show ?case by (simp add: c hd ih)
qed

lemma core_loop_io_fails:
  "(x, y) \<in> set cs \<Longrightarrow> IO_TYPE g = grid_type (grid g x y) \<Longrightarrow>
   \<exists>e. for_each (\<lambda>(x, y). core_grid_body g x y) cs st = Inl e"
proof -
  assume a: "(x, y) \<in> set cs" "IO_TYPE g = grid_type (grid g x y)"
  show ?thesis
  proof (cases "for_each (\<lambda>(x, y). core_grid_body g x y) cs st")
    case (Inl e) then show ?thesis by simp
  next
    case (Inr st')
    from core_loop_success [OF Inr] a show ?thesis by auto
  qed
qed

lemma io_loop_success:
  "for_each (\<lambda>(x, y). io_grid_body g x y) cs st = Inr st' \<Longrightarrow>
     (\<forall>(x, y) \<in> set cs. IO_TYPE g = grid_type (grid g x y)) \<and> visit_tiles g cs st = Inr st'"
proof (induction cs arbitrary: st)
  case Nil then show ?case by simp
next
  case (Cons c cs)
  obtain x y where c: "c = (x, y)" by (cases c)
  from Cons.prems c obtain st1 where
    b: "io_grid_body g x y st = Inr st1" and r: "for_each (\<lambda>(x, y). io_grid_body g x y) cs st1 = Inr st'"
    by (auto simp: and_then_eq_Inr)
  from b have io: "IO_TYPE g = grid_type (grid g x y)"
    by (auto simp: io_grid_body_def split: if_splits)
  from Cons.IH [OF r] have ih1: "\<forall>(x, y) \<in> set cs. IO_TYPE g = grid_type (grid g x y)"
    and ih2: "visit_tiles g cs st1 = Inr st'"
    by simp_all
  show ?case using b io ih1 ih2 c
    by (auto simp: io_grid_body_def split: if_splits)
qed

lemma io_loop_eq:
  "\<forall>(x, y) \<in> set cs. IO_TYPE g = grid_type (grid g x y) \<Longrightarrow>
   for_each (\<lambda>(x, y). io_grid_body g x y) cs st = visit_tiles g cs st"
proof (induction cs arbitrary: st)
  case Nil then show ?case by simp
next
  case (Cons c cs)
  obtain x y where c: "c = (x, y)" by (cases c)
  from Cons.prems have ih: "for_each (\<lambda>(x, y). io_grid_body g x y) cs = visit_tiles g cs"
    by (intro ext Cons.IH) simp
  from Cons.prems c have io: "IO_TYPE g = grid_type (grid g x y)" by simp
  have hd: "io_grid_body g x y st = update_grid_index (grid_type (grid g x y)) x y st"
    using io by (simp add: io_grid_body_def)
  show ?case by (simp add: c hd ih)
qed

lemma visit_tiles_append: "visit_tiles g (xs @ ys) st = and_then (visit_tiles g xs st) (visit_tiles g ys)"
proof (induction xs arbitrary: st)
  case Nil show ?case by simp
next
  case (Cons c cs)
  obtain x y where c: "c = (x, y)" by (cases c)
  show ?case
    by (cases "update_grid_index (grid_type (grid g x y)) x y st") (simp_all add: c Cons.IH)
qed



lemma for_loop_eq: "for_loop i hi body = for_each body [i ..< hi]"
  by (rule ext) (rule for_loop_for_each)

lemma for_each_map_eq: "for_each body (map h xs) = for_each (\<lambda>x. body (h x)) xs"
  by (rule ext) (rule for_each_map)

lemma for_each_append_eq:
  "for_each body (xs @ ys) = (\<lambda>s. and_then (for_each body xs s) (for_each body ys))"
  by (rule ext) (rule for_each_append)

lemma and_then_assoc: "and_then (and_then m f) h = and_then m (\<lambda>v. and_then (f v) h)"
  by (cases m) simp_all

lemma core_loops_for_each:
  "for_loop lx hx (\<lambda>ix. for_loop ly hy (\<lambda>iy. core_grid_body g ix iy)) st =
   for_each (\<lambda>(x, y). core_grid_body g x y) (List.product [lx ..< hx] [ly ..< hy]) st"
  using for_each_nested [of "\<lambda>(x, y). core_grid_body g x y" "[ly ..< hy]" "[lx ..< hx]" st]
  by (simp only: for_loop_eq prod.case)

lemma io_loop_for_each:
  "for_loop lo hi (\<lambda>i. io_grid_body g (fx i) (fy i)) =
   for_each (\<lambda>(x, y). io_grid_body g x y) (map (\<lambda>i. (fx i, fy i)) [lo ..< hi])"
  by (simp only: for_loop_eq for_each_map_eq prod.case)


lemma pass_unfold:
  assumes "0 < nx g" "0 < ny g"
  shows "compact_verilog_update_grid_spice_model_and_sram_orgz_info g st =
     and_then (for_each (\<lambda>(x, y). core_grid_body g x y) (List.product [1 ..< nx g + 1] [1 ..< ny g + 1]) st)
       (\<lambda>st1. and_then (for_each (\<lambda>(x, y). io_grid_body g x y) (border_tiles g) st1)
          (\<lambda>st5. Inr (pass_messages g, st5)))"
proof -
  have ne: "(0 = nx g \<or> 0 = ny g) = False" using assms by simp
  have top: "for_loop 1 (nx g + 1) (\<lambda>ix. io_grid_body g ix (ny g + 1)) =
     for_each (\<lambda>(x, y). io_grid_body g x y) (map (\<lambda>x. (x, ny g + 1)) [1 ..< nx g + 1])"
    by (rule io_loop_for_each [of _ _ g "\<lambda>i. i" "\<lambda>i. ny g + 1"])
  have right: "for_loop 1 (ny g + 1) (\<lambda>iy. io_grid_body g (nx g + 1) iy) =
     for_each (\<lambda>(x, y). io_grid_body g x y) (map (\<lambda>y. (nx g + 1, y)) [1 ..< ny g + 1])"
    by (rule io_loop_for_each [of _ _ g "\<lambda>i. nx g + 1" "\<lambda>i. i"])
  have bottom: "for_loop 1 (nx g + 1) (\<lambda>ix. io_grid_body g ix 0) =
     for_each (\<lambda>(x, y). io_grid_body g x y) (map (\<lambda>x. (x, 0)) [1 ..< nx g + 1])"
    by (rule io_loop_for_each [of _ _ g "\<lambda>i. i" "\<lambda>i. 0"])
  have left: "for_loop 1 (ny g + 1) (\<lambda>iy. io_grid_body g 0 iy) =
     for_each (\<lambda>(x, y). io_grid_body g x y) (map (\<lambda>y. (0, y)) [1 ..< ny g + 1])"
    by (rule io_loop_for_each [of _ _ g "\<lambda>i. 0" "\<lambda>i. i"])
  show ?thesis
    unfolding compact_verilog_update_grid_spice_model_and_sram_orgz_info_def
    by (simp only: ne if_False core_loops_for_each top right bottom left border_tiles_def
          for_each_append_eq and_then_assoc pass_messages_def)
qed


lemma pass_success:
  assumes nz: "0 < nx g" "0 < ny g"
    and ok: "compact_verilog_update_grid_spice_model_and_sram_orgz_info g st = Inr (msgs, st')"
  shows "visit_tiles g (device_tiles_in_bitstream_order g) st = Inr st'"
    and "\<forall>(x, y) \<in> set (List.product [1 ..< nx g + 1] [1 ..< ny g + 1]). IO_TYPE g \<noteq> grid_type (grid g x y)"
    and "\<forall>(x, y) \<in> set (border_tiles g). IO_TYPE g = grid_type (grid g x y)"
    and "msgs = pass_messages g"
proof -
  from ok obtain st1 where
    c: "for_each (\<lambda>(x, y). core_grid_body g x y) (List.product [1 ..< nx g + 1] [1 ..< ny g + 1]) st = Inr st1"
    and b: "for_each (\<lambda>(x, y). io_grid_body g x y) (border_tiles g) st1 = Inr st'"
    and m: "msgs = pass_messages g"
    unfolding pass_unfold [OF nz] by (auto simp: and_then_eq_Inr)
  from core_loop_success [OF c] have c1: "\<forall>(x, y) \<in> set (List.product [1 ..< nx g + 1] [1 ..< ny g + 1]). IO_TYPE g \<noteq> grid_type (grid g x y)"
    and c2: "visit_tiles g (interior_tiles g) st = Inr st1"
    by (simp_all add: interior_tiles_def)
  from io_loop_success [OF b] have b1: "\<forall>(x, y) \<in> set (border_tiles g). IO_TYPE g = grid_type (grid g x y)"
    and b2: "visit_tiles g (border_tiles g) st1 = Inr st'"
    by simp_all
  show "visit_tiles g (device_tiles_in_bitstream_order g) st = Inr st'"
    by (simp add: device_tiles_in_bitstream_order_def visit_tiles_append c2 b2)
  show "\<forall>(x, y) \<in> set (List.product [1 ..< nx g + 1] [1 ..< ny g + 1]). IO_TYPE g \<noteq> grid_type (grid g x y)"
    by (rule c1)
  show "\<forall>(x, y) \<in> set (border_tiles g). IO_TYPE g = grid_type (grid g x y)" by (rule b1)
  show "msgs = pass_messages g" by (rule m)
qed

lemma pass_eq:
  assumes nz: "0 < nx g" "0 < ny g"
    and int: "\<forall>(x, y) \<in> set (List.product [1 ..< nx g + 1] [1 ..< ny g + 1]). IO_TYPE g \<noteq> grid_type (grid g x y)"
    and bor: "\<forall>(x, y) \<in> set (border_tiles g). IO_TYPE g = grid_type (grid g x y)"
  shows "compact_verilog_update_grid_spice_model_and_sram_orgz_info g st =
     and_then (visit_tiles g (device_tiles_in_bitstream_order g) st) (\<lambda>st'. Inr (pass_messages g, st'))"
proof -
  have c: "for_each (\<lambda>(x, y). core_grid_body g x y) (List.product [1 ..< nx g + 1] [1 ..< ny g + 1]) =
      visit_tiles g (interior_tiles g)"
    unfolding interior_tiles_def by (intro ext core_loop_eq int)
  have b: "for_each (\<lambda>(x, y). io_grid_body g x y) (border_tiles g) = visit_tiles g (border_tiles g)"
    by (intro ext io_loop_eq bor)
  show ?thesis
    unfolding pass_unfold [OF nz] c b device_tiles_in_bitstream_order_def
    by (simp add: visit_tiles_append and_then_assoc)
qed

text \<open>The update of the spice models returns when no model has an unknown type.\<close>

lemma stamp_ok: "model_type m \<noteq> SPICE_MODEL_other \<Longrightarrow> \<exists>m'. stamp_spice_model ty x y m = Inr m' \<and> model_type m' = model_type m"
  by (cases "model_type m") (simp_all add: stamp_spice_model_def Let_def)

lemma spice_models_ok:
  "\<forall>m \<in> set ms. model_type m \<noteq> SPICE_MODEL_other \<Longrightarrow>
   \<exists>ms'. compact_verilog_update_one_spice_model_grid_index ty x y ms = Inr ms' \<and>
     (\<forall>m \<in> set ms'. model_type m \<noteq> SPICE_MODEL_other)"
proof (induction ms)
  case Nil show ?case by simp
next
  case (Cons m ms)
  from Cons.prems obtain m' where m': "stamp_spice_model ty x y m = Inr m'" "model_type m' = model_type m"
    using stamp_ok [of m ty x y] by auto
  from Cons obtain ms' where ms': "compact_verilog_update_one_spice_model_grid_index ty x y ms = Inr ms'"
     "\<forall>m \<in> set ms'. model_type m \<noteq> SPICE_MODEL_other" by auto
  show ?case using m' ms' Cons.prems by simp
qed

lemma update_grid_index_ok:
  "\<forall>m \<in> set (spice_model st). model_type m \<noteq> SPICE_MODEL_other \<Longrightarrow>
   \<exists>st'. update_grid_index ty x y st = Inr st' \<and> (\<forall>m \<in> set (spice_model st'). model_type m \<noteq> SPICE_MODEL_other)"
  using spice_models_ok [of "spice_model st" ty x y]
  by (auto simp: update_grid_index_def)

lemma visit_tiles_ok:
  "\<forall>m \<in> set (spice_model st). model_type m \<noteq> SPICE_MODEL_other \<Longrightarrow>
   \<exists>st'. visit_tiles g cs st = Inr st'"
proof (induction cs arbitrary: st)
  case Nil show ?case by simp
next
  case (Cons c cs)
  obtain x y where c: "c = (x, y)" by (cases c)
  from update_grid_index_ok [OF Cons.prems, of "grid_type (grid g x y)" x y]
  obtain st1 where s1: "update_grid_index (grid_type (grid g x y)) x y st = Inr st1"
    "\<forall>m \<in> set (spice_model st1). model_type m \<noteq> SPICE_MODEL_other" by auto
  from Cons.IH [OF s1(2)] show ?case by (simp add: c s1(1))
qed

lemma sram_of_update_grid_index:
  "update_grid_index ty x y st = Inr st' \<Longrightarrow>
   sram_orgz_info st' = compact_verilog_update_sram_orgz_info_grid_index (sram_orgz_info st) ty x y"
  by (auto simp: update_grid_index_def split: sum.splits)

lemma sram_of_visit_tiles:
  "visit_tiles g cs st = Inr st' \<Longrightarrow> sram_orgz_info st' = assign_conf_bits g cs (sram_orgz_info st)"
proof (induction cs arbitrary: st)
  case Nil then show ?case by simp
next
  case (Cons c cs)
  obtain x y where c: "c = (x, y)" by (cases c)
  from Cons.prems c obtain st1 where s1: "update_grid_index (grid_type (grid g x y)) x y st = Inr st1"
    and r: "visit_tiles g cs st1 = Inr st'" by (auto simp: and_then_eq_Inr)
  show ?case using Cons.IH [OF r] sram_of_update_grid_index [OF s1] by (simp add: c)
qed

subsection \<open>The assignment of the configuration bits along a list of tiles\<close>













subsection \<open>The pass on a grid that meets its assertions\<close>

lemma pass_total:
  assumes "0 < nx g" "0 < ny g" "grid_tiles_well_placed g" "spice_models_known st"
  shows "\<exists>st'. compact_verilog_update_grid_spice_model_and_sram_orgz_info g st = Inr (pass_messages g, st')
     \<and> visit_tiles g (device_tiles_in_bitstream_order g) st = Inr st'
     \<and> sram_orgz_info st' = assign_conf_bits g (device_tiles_in_bitstream_order g) (sram_orgz_info st)"
proof -
  from assms(4) obtain st' where v: "visit_tiles g (device_tiles_in_bitstream_order g) st = Inr st'"
    using visit_tiles_ok [of st g] by (auto simp: spice_models_known_def)
  have "compact_verilog_update_grid_spice_model_and_sram_orgz_info g st = Inr (pass_messages g, st')"
    using assms(3) by (simp add: pass_eq [OF assms(1,2)] grid_tiles_well_placed_def v)
  with v sram_of_visit_tiles [OF v] show ?thesis by blast
qed

subsection \<open>The small device\<close>


lemma well_placed_example: "grid_tiles_well_placed globals_example"
  by (simp add: grid_tiles_well_placed_def border_tiles_def
      globals_example_def grid_example_def EMPTY_TYPE_example_def IO_TYPE_example_def
      FILL_TYPE_example_def upt_rec)

lemma known_example: "spice_models_known state_example"
  by (simp add: spice_models_known_def state_example_def)



text \<open>The pass returns exactly on the inputs that meet its assertions and hold no spice
  model of an unknown type.\<close>

lemma stamp_Inr_known:
  "stamp_spice_model ty x y m = Inr m' \<Longrightarrow> model_type m \<noteq> SPICE_MODEL_other"
  by (cases "model_type m") (simp_all add: stamp_spice_model_def)

lemma spice_models_Inr_known:
  "compact_verilog_update_one_spice_model_grid_index ty x y ms = Inr ms' \<Longrightarrow>
   \<forall>m \<in> set ms. model_type m \<noteq> SPICE_MODEL_other"
proof (induction ms arbitrary: ms')
  case Nil then show ?case by simp
next
  case (Cons m ms)
  from Cons.prems obtain m1 ms1 where
    a: "stamp_spice_model ty x y m = Inr m1"
    and b: "compact_verilog_update_one_spice_model_grid_index ty x y ms = Inr ms1"
    by (auto split: sum.splits)
  from stamp_Inr_known [OF a] Cons.IH [OF b] show ?case by simp
qed

lemma visit_tiles_Inr_known:
  "visit_tiles g cs st = Inr st' \<Longrightarrow> cs \<noteq> [] \<Longrightarrow> spice_models_known st"
proof (cases cs)
  case Nil
  assume "cs \<noteq> []" with Nil show ?thesis by simp
next
  case (Cons c cs')
  assume v: "visit_tiles g cs st = Inr st'"
  obtain x y where c: "c = (x, y)" by (cases c)
  from v Cons c obtain st1 where "update_grid_index (grid_type (grid g x y)) x y st = Inr st1"
    by (auto simp: and_then_eq_Inr)
  then obtain ms where
    "compact_verilog_update_one_spice_model_grid_index (grid_type (grid g x y)) x y (spice_model st) = Inr ms"
    by (auto simp: update_grid_index_def split: sum.splits)
  from spice_models_Inr_known [OF this] show ?thesis by (simp add: spice_models_known_def)
qed

lemma order_nonempty: "0 < nx g \<Longrightarrow> device_tiles_in_bitstream_order g \<noteq> []"
  by (simp add: device_tiles_in_bitstream_order_def border_tiles_def)

lemma pass_returns_iff:
  assumes nz: "0 < nx g" "0 < ny g"
  shows "(\<exists>r. compact_verilog_update_grid_spice_model_and_sram_orgz_info g st = Inr r) =
         (grid_tiles_well_placed g \<and> spice_models_known st)"
proof
  assume "\<exists>r. compact_verilog_update_grid_spice_model_and_sram_orgz_info g st = Inr r"
  then obtain msgs st' where
    ok: "compact_verilog_update_grid_spice_model_and_sram_orgz_info g st = Inr (msgs, st')"
    by auto
  from pass_success(2,3) [OF nz ok] have w: "grid_tiles_well_placed g"
    by (simp add: grid_tiles_well_placed_def)
  from visit_tiles_Inr_known [OF pass_success(1) [OF nz ok] order_nonempty [OF nz(1)]]
  have "spice_models_known st" .
  with w show "grid_tiles_well_placed g \<and> spice_models_known st" by simp
next
  assume "grid_tiles_well_placed g \<and> spice_models_known st"
  with pass_total [OF nz] show "\<exists>r. compact_verilog_update_grid_spice_model_and_sram_orgz_info g st = Inr r"
    by blast
qed


section \<open>Theorems about the device ports\<close>

text \<open>
  C8. The validity of a \<^verbatim>\<open>BasicPort\<close> and its width: the port is valid exactly when
  \<open>lsb \<le> msb\<close>; \<^verbatim>\<open>get_width\<close> returns \<open>msb - lsb + 1\<close> (in the arithmetic of
  \<^verbatim>\<open>size_t\<close>) for a valid port and 0 for an invalid one; the default constructor,
  \<^verbatim>\<open>reset\<close>, \<^verbatim>\<open>set_width(0)\<close> and \<^verbatim>\<open>set_width(lsb, msb)\<close> with \<open>lsb > msb\<close> all give
  the invalid port with \<open>lsb = 1\<close>, \<open>msb = 0\<close> and width 0; \<^verbatim>\<open>set_width(w)\<close> with
  \<open>w > 0\<close> gives \<open>lsb = 0\<close>, \<open>msb = w - 1\<close> and width \<open>w\<close>; \<^verbatim>\<open>set_width(lsb, msb)\<close>
  with \<open>lsb \<le> msb\<close> gives a valid port with these bounds.
\<close>

theorem BasicPort_validity:
  "is_valid p = (lsb p \<le> msb p)
   \<and> (is_valid p \<longrightarrow> get_width p = msb p - lsb p + 1)
   \<and> (\<not> is_valid p \<longrightarrow> get_width p = 0)
   \<and> BasicPort_default = \<lparr>msb = 0, lsb = 1\<rparr>
   \<and> reset p = \<lparr>msb = 0, lsb = 1\<rparr>
   \<and> set_width 0 p = \<lparr>msb = 0, lsb = 1\<rparr>
   \<and> (l > m \<longrightarrow> set_width_lsb_msb l m p = \<lparr>msb = 0, lsb = 1\<rparr>)
   \<and> \<not> is_valid \<lparr>msb = 0, lsb = 1\<rparr>
   \<and> get_width \<lparr>msb = 0, lsb = 1\<rparr> = 0
   \<and> (0 < w \<longrightarrow> lsb (set_width w p) = 0 \<and> msb (set_width w p) = w - 1
                  \<and> is_valid (set_width w p) \<and> get_width (set_width w p) = w)
   \<and> (l \<le> m \<longrightarrow> lsb (set_width_lsb_msb l m p) = l \<and> msb (set_width_lsb_msb l m p) = m
                  \<and> is_valid (set_width_lsb_msb l m p))"
proof -
  have inv: "make_invalid p = \<lparr>msb = 0, lsb = 1\<rparr>" by (simp add: make_invalid_def)
  have w: "0 < w \<longrightarrow> lsb (set_width w p) = 0 \<and> msb (set_width w p) = w - 1
                  \<and> is_valid (set_width w p) \<and> get_width (set_width w p) = w"
    by (auto simp: set_width_def get_width_def is_valid_iff)
  have lm: "l \<le> m \<longrightarrow> lsb (set_width_lsb_msb l m p) = l \<and> msb (set_width_lsb_msb l m p) = m
                  \<and> is_valid (set_width_lsb_msb l m p)"
    by (auto simp: set_width_lsb_msb_def set_lsb_def set_msb_def is_valid_iff)
  show ?thesis
    using w lm
    by (simp add: is_valid_iff get_width_def BasicPort_default_def reset_def set_width_def
        set_width_lsb_msb_def inv)
qed

theorem BasicPort_validity_witness:
  "is_valid \<lparr>msb = 7, lsb = 4\<rparr>
   \<and> get_width \<lparr>msb = 7, lsb = 4\<rparr> = 4
   \<and> (3 :: size_t) > 2
   \<and> set_width_lsb_msb 3 2 \<lparr>msb = 7, lsb = 4\<rparr> = \<lparr>msb = 0, lsb = 1\<rparr>
   \<and> \<not> is_valid (set_width_lsb_msb 3 2 \<lparr>msb = 7, lsb = 4\<rparr>)
   \<and> get_width (set_width_lsb_msb 3 2 \<lparr>msb = 7, lsb = 4\<rparr>) = 0
   \<and> (0 :: size_t) < 5
   \<and> lsb (set_width 5 \<lparr>msb = 7, lsb = 4\<rparr>) = 0
   \<and> msb (set_width 5 \<lparr>msb = 7, lsb = 4\<rparr>) = 4
   \<and> get_width (set_width 5 \<lparr>msb = 7, lsb = 4\<rparr>) = 5
   \<and> (2 :: size_t) \<le> 3
   \<and> is_valid (set_width_lsb_msb 2 3 \<lparr>msb = 7, lsb = 4\<rparr>)
   \<and> get_width (set_width_lsb_msb 2 3 \<lparr>msb = 7, lsb = 4\<rparr>) = 2"
  using BasicPort_validity [where p = "\<lparr>msb = 7, lsb = 4\<rparr>" and l = 3 and m = 2 and w = 5]
    BasicPort_validity [where p = "\<lparr>msb = 7, lsb = 4\<rparr>" and l = 2 and m = 3 and w = 5]
    BasicPort_validity [where p = "set_width_lsb_msb 2 3 \<lparr>msb = 7, lsb = 4\<rparr>" and l = 2 and m = 3 and w = 5]
  by simp

text \<open>
  C9. \<^verbatim>\<open>rotate\<close> and \<^verbatim>\<open>counter_rotate\<close> are inverse on success: for a port with
  \<open>lsb \<le> msb\<close> and any offset, if \<^verbatim>\<open>rotate(offset)\<close> returns true then
  \<^verbatim>\<open>counter_rotate(offset)\<close> on the rotated port returns true and restores lsb and
  msb; with offset 0, or on an invalid port, both return true and leave the port as
  it is.
\<close>

theorem rotate_counter_rotate_inverse:
  "(lsb p \<le> msb p \<and> rotate_port off p = (True, q) \<longrightarrow>
      counter_rotate off q = (True, p) \<and> lsb (snd (counter_rotate off q)) = lsb p
      \<and> msb (snd (counter_rotate off q)) = msb p)
   \<and> rotate_port 0 p = (True, p)
   \<and> counter_rotate 0 p = (True, p)
   \<and> (\<not> is_valid p \<longrightarrow> get_width p = 0 \<and> rotate_port off p = (True, p)
                        \<and> counter_rotate off p = (True, p))"
  using rotate_then_counter_rotate [of off p q] rotate_trivial [of off p] rotate_trivial [of 0 p]
  by (auto simp: get_width_def)

theorem rotate_counter_rotate_inverse_witness:
  "lsb \<lparr>msb = 7, lsb = 4\<rparr> \<le> msb \<lparr>msb = 7, lsb = 4\<rparr>
   \<and> rotate_port 10 \<lparr>msb = 7, lsb = 4\<rparr> = (True, \<lparr>msb = 17, lsb = 14\<rparr>)
   \<and> counter_rotate 10 \<lparr>msb = 17, lsb = 14\<rparr> = (True, \<lparr>msb = 7, lsb = 4\<rparr>)
   \<and> \<not> is_valid \<lparr>msb = 0, lsb = 1\<rparr>
   \<and> rotate_port 10 \<lparr>msb = 0, lsb = 1\<rparr> = (True, \<lparr>msb = 0, lsb = 1\<rparr>)
   \<and> counter_rotate 10 \<lparr>msb = 0, lsb = 1\<rparr> = (True, \<lparr>msb = 0, lsb = 1\<rparr>)"
proof -
  have r: "rotate_port 10 \<lparr>msb = 7, lsb = 4\<rparr> = (True, \<lparr>msb = 17, lsb = 14\<rparr>)"
    by (simp add: rotate_port_def get_width_def is_valid_def size_t_max_def)
  have v: "lsb \<lparr>msb = 7, lsb = 4\<rparr> \<le> msb \<lparr>msb = 7, lsb = 4\<rparr>" by simp
  have i: "\<not> is_valid \<lparr>msb = 0, lsb = 1\<rparr>" by (simp add: is_valid_def)
  show ?thesis
    using rotate_counter_rotate_inverse [of "\<lparr>msb = 7, lsb = 4\<rparr>" 10 "\<lparr>msb = 17, lsb = 14\<rparr>"]
      rotate_counter_rotate_inverse [of "\<lparr>msb = 0, lsb = 1\<rparr>" 10] r v i
    by simp
qed

text \<open>
  C10. \<^verbatim>\<open>rotate\<close> and \<^verbatim>\<open>counter_rotate\<close> are to fail exactly at the arithmetic bounds
  of a valid port. On every valid port whose width does not wrap around they do
  (\<open>rotate_fails_iff\<close>, \<open>counter_rotate_fails_iff\<close> and \<open>rotate_atomic\<close> below). The
  port with \<open>lsb = 0\<close> and \<open>msb\<close> the largest value of \<^verbatim>\<open>size_t\<close> is valid, but its
  width \<open>msb - lsb + 1\<close> wraps around to 0: \<^verbatim>\<open>rotate(1)\<close> and \<^verbatim>\<open>counter_rotate(1)\<close>
  take it for an invalid port and return true without moving it, although
  \<open>msb + 1\<close> exceeds the largest value and \<open>1 > lsb\<close>.
\<close>

theorem rotate_full_range_port:
  "is_valid \<lparr>msb = size_t_max, lsb = 0\<rparr>
   \<and> lsb \<lparr>msb = size_t_max, lsb = 0\<rparr> \<le> msb \<lparr>msb = size_t_max, lsb = 0\<rparr>
   \<and> get_width \<lparr>msb = size_t_max, lsb = 0\<rparr> = 0
   \<and> unat (msb \<lparr>msb = size_t_max, lsb = 0\<rparr>) + unat (1 :: size_t) > unat size_t_max
   \<and> rotate_port 1 \<lparr>msb = size_t_max, lsb = 0\<rparr> = (True, \<lparr>msb = size_t_max, lsb = 0\<rparr>)
   \<and> (1 :: size_t) > lsb \<lparr>msb = size_t_max, lsb = 0\<rparr>
   \<and> counter_rotate 1 \<lparr>msb = size_t_max, lsb = 0\<rparr> = (True, \<lparr>msb = size_t_max, lsb = 0\<rparr>)"
  by (simp add: rotate_port_def counter_rotate_def get_width_def is_valid_def size_t_max_def)

lemma rotate_fails_iff:
  "is_valid p \<Longrightarrow> get_width p \<noteq> 0 \<Longrightarrow> off \<noteq> 0 \<Longrightarrow>
     (fst (rotate_port off p) = False) = (unat size_t_max < unat (msb p) + unat off)"
  by (auto simp: rotate_port_def rotate_overflow_iff unat_size_t_max)

lemma counter_rotate_fails_iff:
  "is_valid p \<Longrightarrow> get_width p \<noteq> 0 \<Longrightarrow> off \<noteq> 0 \<Longrightarrow>
     (fst (counter_rotate off p) = False) = (off > lsb p)"
  by (auto simp: counter_rotate_def size_t_min_def)

lemma rotate_atomic:
  "(fst (rotate_port off p) = False \<longrightarrow> snd (rotate_port off p) = p)
   \<and> (fst (counter_rotate off p) = False \<longrightarrow> snd (counter_rotate off p) = p)
   \<and> (get_width p \<noteq> 0 \<and> off \<noteq> 0 \<and> fst (rotate_port off p) \<longrightarrow>
        unat (lsb (snd (rotate_port off p))) = unat (lsb p) + unat off
        \<and> unat (msb (snd (rotate_port off p))) = unat (msb p) + unat off)
   \<and> (get_width p \<noteq> 0 \<and> off \<noteq> 0 \<and> fst (counter_rotate off p) \<longrightarrow>
        unat (lsb (snd (counter_rotate off p))) = unat (lsb p) - unat off
        \<and> unat (msb (snd (counter_rotate off p))) = unat (msb p) - unat off
        \<and> unat off \<le> unat (lsb p))"
proof -
  have a: "fst (rotate_port off p) = False \<longrightarrow> snd (rotate_port off p) = p"
    by (simp add: rotate_port_def)
  have b: "fst (counter_rotate off p) = False \<longrightarrow> snd (counter_rotate off p) = p"
    by (simp add: counter_rotate_def)
  have c: "get_width p \<noteq> 0 \<and> off \<noteq> 0 \<and> fst (rotate_port off p) \<longrightarrow>
        unat (lsb (snd (rotate_port off p))) = unat (lsb p) + unat off
        \<and> unat (msb (snd (rotate_port off p))) = unat (msb p) + unat off"
  proof (intro impI)
    assume h: "get_width p \<noteq> 0 \<and> off \<noteq> 0 \<and> fst (rotate_port off p)"
    then have no: "\<not> size_t_max - msb p < off" by (auto simp: rotate_port_def split: if_splits)
    have v: "is_valid p" using h by (auto simp: get_width_def split: if_splits)
    have le: "unat (lsb p) \<le> unat (msb p)" using v by (simp add: is_valid_iff word_le_nat_alt)
    have m: "unat (msb p) + unat off < 2 ^ 64" using no by (simp add: rotate_overflow_iff)
    have l: "unat (lsb p) + unat off < 2 ^ 64" using le m by linarith
    show "unat (lsb (snd (rotate_port off p))) = unat (lsb p) + unat off
        \<and> unat (msb (snd (rotate_port off p))) = unat (msb p) + unat off"
      using h no unat_add_no_overflow [OF m] unat_add_no_overflow [OF l]
      by (simp add: rotate_port_def)
  qed
  have d: "get_width p \<noteq> 0 \<and> off \<noteq> 0 \<and> fst (counter_rotate off p) \<longrightarrow>
        unat (lsb (snd (counter_rotate off p))) = unat (lsb p) - unat off
        \<and> unat (msb (snd (counter_rotate off p))) = unat (msb p) - unat off
        \<and> unat off \<le> unat (lsb p)"
  proof (intro impI)
    assume h: "get_width p \<noteq> 0 \<and> off \<noteq> 0 \<and> fst (counter_rotate off p)"
    then have no: "\<not> lsb p < off" by (auto simp: counter_rotate_def size_t_min_def split: if_splits)
    have v: "is_valid p" using h by (auto simp: get_width_def split: if_splits)
    have ol: "off \<le> lsb p" using no by simp
    have om: "off \<le> msb p" using ol v by (simp add: is_valid_iff)
    show "unat (lsb (snd (counter_rotate off p))) = unat (lsb p) - unat off
        \<and> unat (msb (snd (counter_rotate off p))) = unat (msb p) - unat off
        \<and> unat off \<le> unat (lsb p)"
      using h no ol om
      by (simp add: counter_rotate_def size_t_min_def unat_sub word_le_nat_alt)
  qed
  from a b c d show ?thesis by blast
qed


section \<open>Theorems about the configuration-bit indices of the grid\<close>

lemma interior_set:
  "((x, y) \<in> set (List.product [1 ..< n + 1] [1 ..< m + 1])) = (1 \<le> x \<and> x \<le> n \<and> 1 \<le> y \<and> y \<le> m)"
  by auto

lemma border_set:
  "((x, y) \<in> set (border_tiles g)) =
     ((1 \<le> x \<and> x \<le> nx g \<and> (y = ny g + 1 \<or> y = 0))
      \<or> (1 \<le> y \<and> y \<le> ny g \<and> (x = nx g + 1 \<or> x = 0)))"
  by (auto simp: border_tiles_def)

lemma example_extents: "0 < nx globals_example" "0 < ny globals_example"
  by (simp_all add: globals_example_def)

















text \<open>
  C7. I/O tiles are on the border of the device only. A pass over the grid that
  returns has met no I/O tile at an interior coordinate (\<open>1 \<le> x \<le> nx\<close>,
  \<open>1 \<le> y \<le> ny\<close>) and only I/O tiles on the four borders that it walks (the top and
  bottom rows and the right and left columns, the four corners apart); with an I/O
  tile at an interior coordinate the pass ends the run instead of returning; and the
  name of the module of an I/O block is made only for a border side from 0 to 3, any
  other side ending the run in the assertion.
\<close>

theorem io_tiles_only_on_border:
  "(0 < nx g \<and> 0 < ny g
      \<and> (\<exists>r. compact_verilog_update_grid_spice_model_and_sram_orgz_info g st = Inr r) \<longrightarrow>
        (\<forall>x y. 1 \<le> x \<and> x \<le> nx g \<and> 1 \<le> y \<and> y \<le> ny g \<longrightarrow> grid_type (grid g x y) \<noteq> IO_TYPE g)
        \<and> (\<forall>x. 1 \<le> x \<and> x \<le> nx g \<longrightarrow>
               grid_type (grid g x (ny g + 1)) = IO_TYPE g \<and> grid_type (grid g x 0) = IO_TYPE g)
        \<and> (\<forall>y. 1 \<le> y \<and> y \<le> ny g \<longrightarrow>
               grid_type (grid g (nx g + 1) y) = IO_TYPE g \<and> grid_type (grid g 0 y) = IO_TYPE g))
   \<and> (0 < nx g \<and> 0 < ny g
      \<and> (\<exists>x y. 1 \<le> x \<and> x \<le> nx g \<and> 1 \<le> y \<and> y \<le> ny g \<and> grid_type (grid g x y) = IO_TYPE g) \<longrightarrow>
        (\<exists>e. compact_verilog_update_grid_spice_model_and_sram_orgz_info g st = Inl e))
   \<and> (phy_block_type = IO_TYPE g \<longrightarrow>
        ((\<exists>n. generate_compact_verilog_grid_module_name_prefix prefix side_name g phy_block_type
                 border_side = Inr n)
         = (0 \<le> border_side \<and> border_side < 4))
        \<and> (\<not> (0 \<le> border_side \<and> border_side < 4) \<longrightarrow>
             generate_compact_verilog_grid_module_name_prefix prefix side_name g phy_block_type
               border_side = Inl AssertionFailed))"
proof -
  have A: "0 < nx g \<and> 0 < ny g
      \<and> (\<exists>r. compact_verilog_update_grid_spice_model_and_sram_orgz_info g st = Inr r) \<longrightarrow>
        (\<forall>x y. 1 \<le> x \<and> x \<le> nx g \<and> 1 \<le> y \<and> y \<le> ny g \<longrightarrow> grid_type (grid g x y) \<noteq> IO_TYPE g)
        \<and> (\<forall>x. 1 \<le> x \<and> x \<le> nx g \<longrightarrow>
               grid_type (grid g x (ny g + 1)) = IO_TYPE g \<and> grid_type (grid g x 0) = IO_TYPE g)
        \<and> (\<forall>y. 1 \<le> y \<and> y \<le> ny g \<longrightarrow>
               grid_type (grid g (nx g + 1) y) = IO_TYPE g \<and> grid_type (grid g 0 y) = IO_TYPE g)"
  proof (intro impI)
    assume h: "0 < nx g \<and> 0 < ny g
      \<and> (\<exists>r. compact_verilog_update_grid_spice_model_and_sram_orgz_info g st = Inr r)"
    then obtain msgs st' where
      ok: "compact_verilog_update_grid_spice_model_and_sram_orgz_info g st = Inr (msgs, st')"
      by auto
    from h have nz: "0 < nx g" "0 < ny g" by simp_all
    from pass_success(2) [OF nz ok]
    have i: "\<And>x y. (x, y) \<in> set (List.product [1 ..< nx g + 1] [1 ..< ny g + 1]) \<Longrightarrow>
        IO_TYPE g \<noteq> grid_type (grid g x y)"
      by blast
    from pass_success(3) [OF nz ok]
    have b: "\<And>x y. (x, y) \<in> set (border_tiles g) \<Longrightarrow> IO_TYPE g = grid_type (grid g x y)"
      by blast
    have i': "\<forall>x y. 1 \<le> x \<and> x \<le> nx g \<and> 1 \<le> y \<and> y \<le> ny g \<longrightarrow> grid_type (grid g x y) \<noteq> IO_TYPE g"
      using i by (metis interior_set)
    have b1: "\<forall>x. 1 \<le> x \<and> x \<le> nx g \<longrightarrow>
               grid_type (grid g x (ny g + 1)) = IO_TYPE g \<and> grid_type (grid g x 0) = IO_TYPE g"
      using b [of _ "ny g + 1"] b [of _ 0] by (simp add: border_set)
    have b2: "\<forall>y. 1 \<le> y \<and> y \<le> ny g \<longrightarrow>
               grid_type (grid g (nx g + 1) y) = IO_TYPE g \<and> grid_type (grid g 0 y) = IO_TYPE g"
      using b [of "nx g + 1"] b [of 0] by (simp add: border_set)
    from i' b1 b2 show "(\<forall>x y. 1 \<le> x \<and> x \<le> nx g \<and> 1 \<le> y \<and> y \<le> ny g \<longrightarrow> grid_type (grid g x y) \<noteq> IO_TYPE g)
        \<and> (\<forall>x. 1 \<le> x \<and> x \<le> nx g \<longrightarrow>
               grid_type (grid g x (ny g + 1)) = IO_TYPE g \<and> grid_type (grid g x 0) = IO_TYPE g)
        \<and> (\<forall>y. 1 \<le> y \<and> y \<le> ny g \<longrightarrow>
               grid_type (grid g (nx g + 1) y) = IO_TYPE g \<and> grid_type (grid g 0 y) = IO_TYPE g)"
      by blast
  qed
  have B: "0 < nx g \<and> 0 < ny g
      \<and> (\<exists>x y. 1 \<le> x \<and> x \<le> nx g \<and> 1 \<le> y \<and> y \<le> ny g \<and> grid_type (grid g x y) = IO_TYPE g) \<longrightarrow>
        (\<exists>e. compact_verilog_update_grid_spice_model_and_sram_orgz_info g st = Inl e)"
  proof (intro impI)
    assume h: "0 < nx g \<and> 0 < ny g
      \<and> (\<exists>x y. 1 \<le> x \<and> x \<le> nx g \<and> 1 \<le> y \<and> y \<le> ny g \<and> grid_type (grid g x y) = IO_TYPE g)"
    show "\<exists>e. compact_verilog_update_grid_spice_model_and_sram_orgz_info g st = Inl e"
    proof (cases "compact_verilog_update_grid_spice_model_and_sram_orgz_info g st")
      case (Inl e) then show ?thesis by simp
    next
      case (Inr r)
      with A h have "\<forall>x y. 1 \<le> x \<and> x \<le> nx g \<and> 1 \<le> y \<and> y \<le> ny g \<longrightarrow> grid_type (grid g x y) \<noteq> IO_TYPE g"
        by blast
      with h show ?thesis by blast
    qed
  qed
  have C: "phy_block_type = IO_TYPE g \<longrightarrow>
        ((\<exists>n. generate_compact_verilog_grid_module_name_prefix prefix side_name g phy_block_type
                 border_side = Inr n)
         = (0 \<le> border_side \<and> border_side < 4))
        \<and> (\<not> (0 \<le> border_side \<and> border_side < 4) \<longrightarrow>
             generate_compact_verilog_grid_module_name_prefix prefix side_name g phy_block_type
               border_side = Inl AssertionFailed)"
    by (auto simp: generate_compact_verilog_grid_module_name_prefix_def Let_def)
  from A B C show ?thesis by blast
qed


lemma example_interior_io_aborts_premise:
  "grid_type (grid (globals_example\<lparr>grid := grid_interior_io_example\<rparr>) 1 1) =
     IO_TYPE (globals_example\<lparr>grid := grid_interior_io_example\<rparr>)"
  by (simp add: globals_example_def grid_interior_io_example_def)

theorem io_tiles_only_on_border_witness:
  "0 < nx globals_example \<and> 0 < ny globals_example
   \<and> (\<exists>r. compact_verilog_update_grid_spice_model_and_sram_orgz_info globals_example state_example
             = Inr r)
   \<and> grid_type (grid globals_example 2 1) \<noteq> IO_TYPE globals_example
   \<and> grid_type (grid globals_example 1 0) = IO_TYPE globals_example
   \<and> grid_type (grid (globals_example\<lparr>grid := grid_interior_io_example\<rparr>) 1 1) =
        IO_TYPE (globals_example\<lparr>grid := grid_interior_io_example\<rparr>)
   \<and> (\<exists>e. compact_verilog_update_grid_spice_model_and_sram_orgz_info
             (globals_example\<lparr>grid := grid_interior_io_example\<rparr>) state_example = Inl e)
   \<and> generate_compact_verilog_grid_module_name_prefix ''grid_''
        (\<lambda>side. if side = 0 then ''top'' else if side = 1 then ''right''
                 else if side = 2 then ''bottom'' else ''left'')
        globals_example IO_TYPE_example 2 = Inr ''grid_bottom_''
   \<and> generate_compact_verilog_grid_module_name_prefix ''grid_''
        (\<lambda>side. if side = 0 then ''top'' else if side = 1 then ''right''
                 else if side = 2 then ''bottom'' else ''left'')
        globals_example IO_TYPE_example 4 = Inl AssertionFailed"
proof -
  let ?bad = "globals_example\<lparr>grid := grid_interior_io_example\<rparr>"
  let ?names = "\<lambda>side :: int. if side = 0 then ''top'' else if side = 1 then ''right''
                 else if side = 2 then ''bottom'' else ''left''"
  from pass_total [OF example_extents well_placed_example known_example]
  have ok: "\<exists>r. compact_verilog_update_grid_spice_model_and_sram_orgz_info globals_example state_example
             = Inr r"
    by blast
  have nzb: "0 < nx ?bad" "0 < ny ?bad" by (simp_all add: globals_example_def)
  have inb: "(1 :: nat) \<le> 1 \<and> 1 \<le> nx ?bad \<and> (1 :: nat) \<le> 1 \<and> 1 \<le> ny ?bad"
    by (simp add: globals_example_def)
  have io: "IO_TYPE_example = IO_TYPE globals_example" by (simp add: globals_example_def)
  have good:
    "(\<forall>x y. 1 \<le> x \<and> x \<le> nx globals_example \<and> 1 \<le> y \<and> y \<le> ny globals_example \<longrightarrow>
          grid_type (grid globals_example x y) \<noteq> IO_TYPE globals_example)
     \<and> (\<forall>x. 1 \<le> x \<and> x \<le> nx globals_example \<longrightarrow>
            grid_type (grid globals_example x (ny globals_example + 1)) = IO_TYPE globals_example
            \<and> grid_type (grid globals_example x 0) = IO_TYPE globals_example)"
    using io_tiles_only_on_border [of globals_example state_example] example_extents ok
    by blast
  then have bottom: "grid_type (grid globals_example 1 0) = IO_TYPE globals_example"
    using example_extents by (simp add: globals_example_def)
  from good have core: "grid_type (grid globals_example 2 1) \<noteq> IO_TYPE globals_example"
    by (simp add: globals_example_def)
  have bad: "\<exists>e. compact_verilog_update_grid_spice_model_and_sram_orgz_info ?bad state_example = Inl e"
    using io_tiles_only_on_border [of ?bad state_example] nzb inb
      example_interior_io_aborts_premise
    by blast
  have n2: "generate_compact_verilog_grid_module_name_prefix ''grid_'' ?names
        globals_example IO_TYPE_example 2 = Inr ''grid_bottom_''"
    by (simp add: generate_compact_verilog_grid_module_name_prefix_def globals_example_def)
  have n4: "generate_compact_verilog_grid_module_name_prefix ''grid_'' ?names
        globals_example IO_TYPE_example 4 = Inl AssertionFailed"
    using io_tiles_only_on_border
      [of globals_example state_example IO_TYPE_example "''grid_''" ?names 4] io
    by simp
  from core bottom bad n2 n4 ok example_extents example_interior_io_aborts_premise
  show ?thesis by blast
qed

section \<open>Theorems about the instances of switch blocks and connection blocks\<close>

lemma nested_loops_for_each:
  "for_loop lx hx (\<lambda>ix. for_loop ly hy (body ix)) st =
   for_each (\<lambda>(x, y). body x y) (List.product [lx ..< hx] [ly ..< hy]) st"
  using for_each_nested [of "\<lambda>(x, y). body x y" "[ly ..< hy]" "[lx ..< hx]" st]
  by (simp only: for_loop_eq prod.case)

lemma for_each_emit:
  "(\<And>x s. body x s = Inr (s @ out x)) \<Longrightarrow> for_each body xs s = Inr (s @ concat (map out xs))"
  by (induction xs arbitrary: s) simp_all



lemma one_connection_box:
  "dump_compact_verilog_defined_one_connection_box device_rr_gsb (Some f)
      (get_gsb device_rr_gsb ix iy) cb_type =
     Inr (f @ [cb_instance_at device_rr_gsb cb_type (ix, iy)])"
  by (simp add: dump_compact_verilog_defined_one_connection_box_def cb_instance_at_def Let_def)

lemma connection_boxes_body_printed:
  "connection_boxes_body is_cb_exist device_rr_gsb ix iy f =
     Inr (f @ (if cb_checks_pass is_cb_exist device_rr_gsb CHANX (ix, iy)
               then [cb_instance_at device_rr_gsb CHANX (ix, iy)] else [])
            @ (if cb_checks_pass is_cb_exist device_rr_gsb CHANY (ix, iy)
               then [cb_instance_at device_rr_gsb CHANY (ix, iy)] else []))"
  by (simp add: connection_boxes_body_def cb_checks_pass_def Let_def one_connection_box)

lemma cb_instances_at_eq:
  "cb_instances_at is_cb_exist device_rr_gsb c =
     (if cb_checks_pass is_cb_exist device_rr_gsb CHANX c
      then [cb_instance_at device_rr_gsb CHANX c] else [])
     @ (if cb_checks_pass is_cb_exist device_rr_gsb CHANY c
        then [cb_instance_at device_rr_gsb CHANY c] else [])"
  by (cases c) (simp add: cb_instances_at_def connection_boxes_body_printed)

lemma connection_boxes_printed:
  "dump_compact_verilog_defined_connection_boxes is_cb_exist device_rr_gsb (Some f) =
     Inr (f @ concat (map (cb_instances_at is_cb_exist device_rr_gsb)
                (List.product [0 ..< get_x (get_gsb_range device_rr_gsb)]
                              [0 ..< get_y (get_gsb_range device_rr_gsb)])))"
proof -
  have "for_each (\<lambda>(ix, iy). connection_boxes_body is_cb_exist device_rr_gsb ix iy)
          (List.product [0 ..< get_x (get_gsb_range device_rr_gsb)]
                        [0 ..< get_y (get_gsb_range device_rr_gsb)]) f =
      Inr (f @ concat (map (cb_instances_at is_cb_exist device_rr_gsb)
                (List.product [0 ..< get_x (get_gsb_range device_rr_gsb)]
                              [0 ..< get_y (get_gsb_range device_rr_gsb)])))"
    by (rule for_each_emit) (auto simp: connection_boxes_body_printed cb_instances_at_eq)
  then show ?thesis
    by (simp add: dump_compact_verilog_defined_connection_boxes_def Let_def nested_loops_for_each)
qed

lemma cb_instance_at_types:
  "(cb_instance_at device_rr_gsb t c = cb_instance_at device_rr_gsb t' c) = (t = t')"
  by (auto simp: cb_instance_at_def)




text \<open>
  C6. An instance of a connection block is printed at a coordinate exactly when the
  existence tests pass for the channel type there: at every GSB of the range and for
  each of the two channel types, the instance is among what the writer prints at that
  GSB exactly when the device-level test \<^verbatim>\<open>is_cb_exist\<close> and the test
  \<^verbatim>\<open>is_cb_exist\<close> of the GSB both return true, and nothing is printed at a GSB where
  the tests do not pass for either channel type.
\<close>

theorem connection_box_printed_iff_exists:
  "dump_compact_verilog_defined_connection_boxes is_cb_exist device_rr_gsb (Some f) =
     Inr (f @ concat (map (cb_instances_at is_cb_exist device_rr_gsb)
                (List.product [0 ..< get_x (get_gsb_range device_rr_gsb)]
                              [0 ..< get_y (get_gsb_range device_rr_gsb)])))
   \<and> connection_boxes_body is_cb_exist device_rr_gsb ix iy f =
       Inr (f @ cb_instances_at is_cb_exist device_rr_gsb (ix, iy))
   \<and> (cb_instance_at device_rr_gsb cb_type (ix, iy)
         \<in> set (cb_instances_at is_cb_exist device_rr_gsb (ix, iy)))
      = (is_cb_exist cb_type
           (get_x (get_cb_coordinator (get_gsb device_rr_gsb ix iy) cb_type))
           (get_y (get_cb_coordinator (get_gsb device_rr_gsb ix iy) cb_type))
         \<and> gsb_is_cb_exist (get_gsb device_rr_gsb ix iy) cb_type)
   \<and> length (cb_instances_at is_cb_exist device_rr_gsb (ix, iy)) =
       (if cb_checks_pass is_cb_exist device_rr_gsb CHANX (ix, iy) then 1 else 0)
       + (if cb_checks_pass is_cb_exist device_rr_gsb CHANY (ix, iy) then 1 else 0)
   \<and> (\<not> cb_checks_pass is_cb_exist device_rr_gsb CHANX (ix, iy)
        \<and> \<not> cb_checks_pass is_cb_exist device_rr_gsb CHANY (ix, iy) \<longrightarrow>
          connection_boxes_body is_cb_exist device_rr_gsb ix iy f = Inr f)
   \<and> cb_checks_pass is_cb_exist device_rr_gsb cb_type (ix, iy) =
       (is_cb_exist cb_type
           (get_x (get_cb_coordinator (get_gsb device_rr_gsb ix iy) cb_type))
           (get_y (get_cb_coordinator (get_gsb device_rr_gsb ix iy) cb_type))
         \<and> gsb_is_cb_exist (get_gsb device_rr_gsb ix iy) cb_type)"
proof -
  have c: "cb_checks_pass is_cb_exist device_rr_gsb cb_type (ix, iy) =
       (is_cb_exist cb_type
           (get_x (get_cb_coordinator (get_gsb device_rr_gsb ix iy) cb_type))
           (get_y (get_cb_coordinator (get_gsb device_rr_gsb ix iy) cb_type))
         \<and> gsb_is_cb_exist (get_gsb device_rr_gsb ix iy) cb_type)"
    by (simp add: cb_checks_pass_def Let_def)
  have m: "(cb_instance_at device_rr_gsb cb_type (ix, iy)
         \<in> set (cb_instances_at is_cb_exist device_rr_gsb (ix, iy)))
      = cb_checks_pass is_cb_exist device_rr_gsb cb_type (ix, iy)"
    by (cases cb_type) (auto simp: cb_instances_at_eq cb_instance_at_types)
  have b: "connection_boxes_body is_cb_exist device_rr_gsb ix iy f =
       Inr (f @ cb_instances_at is_cb_exist device_rr_gsb (ix, iy))"
    by (simp add: connection_boxes_body_printed cb_instances_at_eq)
  have l: "length (cb_instances_at is_cb_exist device_rr_gsb (ix, iy)) =
       (if cb_checks_pass is_cb_exist device_rr_gsb CHANX (ix, iy) then 1 else 0)
       + (if cb_checks_pass is_cb_exist device_rr_gsb CHANY (ix, iy) then 1 else 0)"
    by (simp add: cb_instances_at_eq)
  have n: "\<not> cb_checks_pass is_cb_exist device_rr_gsb CHANX (ix, iy)
        \<and> \<not> cb_checks_pass is_cb_exist device_rr_gsb CHANY (ix, iy) \<longrightarrow>
          connection_boxes_body is_cb_exist device_rr_gsb ix iy f = Inr f"
    by (simp add: connection_boxes_body_printed)
  from connection_boxes_printed [of is_cb_exist device_rr_gsb f] b m [unfolded c] l n c
  show ?thesis by blast
qed

theorem connection_box_printed_iff_exists_witness:
  "dump_compact_verilog_defined_connection_boxes is_cb_exist_example device_rr_gsb_example (Some []) =
     Inr [cb_instance_at device_rr_gsb_example CHANX (1, 0),
          cb_instance_at device_rr_gsb_example CHANX (1, 1)]
   \<and> \<not> cb_checks_pass is_cb_exist_example device_rr_gsb_example CHANX (0, 0)
   \<and> \<not> cb_checks_pass is_cb_exist_example device_rr_gsb_example CHANY (0, 0)
   \<and> connection_boxes_body is_cb_exist_example device_rr_gsb_example 0 0 [] = Inr []
   \<and> is_cb_exist_example CHANY 1 1
   \<and> \<not> gsb_is_cb_exist (get_gsb device_rr_gsb_example 1 1) CHANY
   \<and> cb_instance_at device_rr_gsb_example CHANY (1, 1)
        \<notin> set (cb_instances_at is_cb_exist_example device_rr_gsb_example (1, 1))
   \<and> cb_instance_at device_rr_gsb_example CHANX (1, 1)
        \<in> set (cb_instances_at is_cb_exist_example device_rr_gsb_example (1, 1))"
proof -
  have r: "List.product [0 ..< get_x (get_gsb_range device_rr_gsb_example)]
                        [0 ..< get_y (get_gsb_range device_rr_gsb_example)]
           = [(0, 0), (0, 1), (1, 0), (1, 1)]"
    by (simp add: get_gsb_range_def get_x_def get_y_def device_rr_gsb_example_def upt_rec)
  have k: "\<And>t x y. cb_checks_pass is_cb_exist_example device_rr_gsb_example t (x, y) =
      (case t of CHANX \<Rightarrow> 0 < x | CHANY \<Rightarrow> 0 < y \<and> y < 1)"
    by (simp add: cb_checks_pass_def Let_def is_cb_exist_example_def get_gsb_def
        get_cb_coordinator_def gsb_is_cb_exist_def get_x_def get_y_def
        device_rr_gsb_example_def gsb_example_def split: t_rr_type.splits)
  have e: "is_cb_exist_example CHANY 1 1" by (simp add: is_cb_exist_example_def)
  have ge: "\<not> gsb_is_cb_exist (get_gsb device_rr_gsb_example 1 1) CHANY"
    by (simp add: gsb_is_cb_exist_def get_gsb_def device_rr_gsb_example_def gsb_example_def)
  have cx: "get_cb_coordinator (get_gsb device_rr_gsb_example 1 1) CHANX = (1, 1)"
    and cy: "get_cb_coordinator (get_gsb device_rr_gsb_example 1 1) CHANY = (1, 1)"
    by (simp_all add: get_cb_coordinator_def get_gsb_def device_rr_gsb_example_def gsb_example_def)
  have gx: "gsb_is_cb_exist (get_gsb device_rr_gsb_example 1 1) CHANX"
    by (simp add: gsb_is_cb_exist_def get_gsb_def device_rr_gsb_example_def gsb_example_def)
  have ex: "is_cb_exist_example CHANX
      (get_x (get_cb_coordinator (get_gsb device_rr_gsb_example 1 1) CHANX))
      (get_y (get_cb_coordinator (get_gsb device_rr_gsb_example 1 1) CHANX))"
    by (simp add: is_cb_exist_example_def get_x_def get_cb_coordinator_def get_gsb_def
        device_rr_gsb_example_def gsb_example_def)
  from connection_box_printed_iff_exists
         [of is_cb_exist_example device_rr_gsb_example "[]" 0 0 CHANX, unfolded r]
  have a: "dump_compact_verilog_defined_connection_boxes is_cb_exist_example device_rr_gsb_example (Some []) =
     Inr [cb_instance_at device_rr_gsb_example CHANX (1, 0),
          cb_instance_at device_rr_gsb_example CHANX (1, 1)]"
    and b: "connection_boxes_body is_cb_exist_example device_rr_gsb_example 0 0 [] = Inr []"
    by (simp_all add: cb_instances_at_eq k)
  from connection_box_printed_iff_exists
         [of is_cb_exist_example device_rr_gsb_example "[]" 1 1 CHANY]
  have ny: "cb_instance_at device_rr_gsb_example CHANY (1, 1)
        \<notin> set (cb_instances_at is_cb_exist_example device_rr_gsb_example (1, 1))"
    using ge by blast
  from connection_box_printed_iff_exists
         [of is_cb_exist_example device_rr_gsb_example "[]" 1 1 CHANX]
  have yx: "cb_instance_at device_rr_gsb_example CHANX (1, 1)
        \<in> set (cb_instances_at is_cb_exist_example device_rr_gsb_example (1, 1))"
    using gx ex by blast
  from a b e ge ny yx show ?thesis by (simp add: k)
qed


end
